theory Spec2Isabelle
  imports Main
begin

section \<open>Types, fields and prop shapes\<close>

text \<open>
  The file \<^verbatim>\<open>packages/components/index.d.ts\<close> is a program of the TypeScript type
  level: its functions are the generic type aliases \<^verbatim>\<open>Omit\<close>, \<^verbatim>\<open>Assign\<close> and
  \<^verbatim>\<open>FieldProps\<close>, its data are object types (prop shapes). A shape is an association
  list from property names to fields; a field is the type read at the property and its
  optionality modifier. As TypeScript does under \<^verbatim>\<open>strictNullChecks\<close>, the type stored
  for an optional property \<^verbatim>\<open>p?: X\<close> is the type read there, \<^verbatim>\<open>X | undefined\<close>.
\<close>

datatype ty =
    TString
  | TNumber
  | TBoolean
  | TUndefined
  | TNull
  | TAny
  | TNever
  | TLit string
  | TUnion ty ty
  | TInter ty ty
  | TObject "(string \<times> field) list"
  | TExt string "ty list"
and field = Fld (fty: ty) (optional: bool)

type_synonym shape = "(string \<times> field) list"

text \<open>A required property \<^verbatim>\<open>p: X\<close> and an optional property \<^verbatim>\<open>p?: X\<close>.\<close>

definition req :: "ty \<Rightarrow> field" where
  "req t = Fld t False"

definition opt :: "ty \<Rightarrow> field" where
  "opt t = Fld (TUnion t TUndefined) True"

text \<open>\<^verbatim>\<open>keyof T\<close>, the union of the property names of \<open>T\<close>, as the list of names.\<close>

definition keyof :: "shape \<Rightarrow> string list" where
  "keyof T = map fst T"

definition field_of :: "shape \<Rightarrow> string \<Rightarrow> field option" where
  "field_of T P = map_of T P"

text \<open>
  The indexed access type \<^verbatim>\<open>T[P]\<close>. For a name that \<open>T\<close> does not declare the compiler
  reports an error and goes on with \<^verbatim>\<open>any\<close>.
\<close>

definition index :: "shape \<Rightarrow> string \<Rightarrow> ty" where
  "index T P = (case field_of T P of Some f \<Rightarrow> fty f | None \<Rightarrow> TAny)"

definition is_optional :: "shape \<Rightarrow> string \<Rightarrow> bool" where
  "is_optional T P = (case field_of T P of Some f \<Rightarrow> optional f | None \<Rightarrow> False)"

text \<open>
  The intersection \<^verbatim>\<open>T & U\<close> of two object types. Its property table has the
  properties of both; a property of both has the intersection of the two types and is
  optional only when it is optional in both.
\<close>

fun inter_field :: "field option \<Rightarrow> field option \<Rightarrow> field option" where
  "inter_field (Some a) (Some b) =
     Some (Fld (TInter (fty a) (fty b)) (optional a \<and> optional b))"
| "inter_field (Some a) None = Some a"
| "inter_field None b = b"

definition Intersect_fields :: "shape \<Rightarrow> shape \<Rightarrow> shape" where
  "Intersect_fields T U =
     List.map_filter (\<lambda>P. map_option (Pair P) (inter_field (field_of T P) (field_of U P)))
       (keyof T @ filter (\<lambda>P. P \<notin> set (keyof T)) (keyof U))"

text \<open>
  The compiler reduces an intersection of object types to \<^verbatim>\<open>never\<close> when one of its
  properties is a discriminant whose type is \<^verbatim>\<open>never\<close>: the property has different
  types in the two operands, one of them a literal type (a unit type, \<^verbatim>\<open>boolean\<close>, or a
  union of unit types), neither of them \<^verbatim>\<open>never\<close>, and the intersection of the two
  types is empty.

  \<open>dnf t\<close> is \<open>t\<close> as a union of intersections of types that are neither unions nor
  intersections. Two such types clash when no value has both: primitive types of
  different kinds, two different string literals, an object type and \<^verbatim>\<open>undefined\<close> or
  \<^verbatim>\<open>null\<close>. A type that another package names is opaque and clashes with none (the
  ones this file uses all have object or function members, which the compiler
  intersects with any other type without reducing); \<^verbatim>\<open>any\<close> absorbs an intersection.
\<close>

fun dnf :: "ty \<Rightarrow> ty list list" where
  "dnf TNever = []"
| "dnf (TUnion a b) = dnf a @ dnf b"
| "dnf (TInter a b) = concat (map (\<lambda>x. map (\<lambda>y. x @ y) (dnf b)) (dnf a))"
| "dnf t = [[t]]"

datatype kind = KString | KNumber | KBoolean | KUndefined | KNull | KObject | KOpen

fun kind_of :: "ty \<Rightarrow> kind" where
  "kind_of TString = KString"
| "kind_of (TLit s) = KString"
| "kind_of TNumber = KNumber"
| "kind_of TBoolean = KBoolean"
| "kind_of TUndefined = KUndefined"
| "kind_of TNull = KNull"
| "kind_of (TObject S) = KObject"
| "kind_of t = KOpen"

definition clash :: "ty \<Rightarrow> ty \<Rightarrow> bool" where
  "clash a b =
     (if kind_of a = KOpen \<or> kind_of b = KOpen then False
      else if kind_of a = KObject \<or> kind_of b = KObject
      then kind_of a \<in> {KUndefined, KNull} \<or> kind_of b \<in> {KUndefined, KNull}
      else if kind_of a \<noteq> kind_of b then True
      else (case (a, b) of (TLit s, TLit t) \<Rightarrow> s \<noteq> t | _ \<Rightarrow> False))"

definition empty_ty :: "ty \<Rightarrow> bool" where
  "empty_ty t =
     list_all (\<lambda>c. TAny \<notin> set c \<and> list_ex (\<lambda>a. list_ex (\<lambda>b. clash a b) c) c) (dnf t)"

fun literal_ty :: "ty \<Rightarrow> bool" where
  "literal_ty (TLit s) = True"
| "literal_ty TBoolean = True"
| "literal_ty TUndefined = True"
| "literal_ty TNull = True"
| "literal_ty (TUnion a b) = (literal_ty a \<and> literal_ty b)"
| "literal_ty t = False"

definition never_reduced :: "shape \<Rightarrow> shape \<Rightarrow> bool" where
  "never_reduced T U =
     list_ex (\<lambda>P. case (field_of T P, field_of U P) of
                    (Some f, Some g) \<Rightarrow>
                      fty f \<noteq> fty g \<and> (literal_ty (fty f) \<or> literal_ty (fty g)) \<and>
                      fty f \<noteq> TNever \<and> fty g \<noteq> TNever \<and>
                      empty_ty (TInter (fty f) (fty g))
                  | _ \<Rightarrow> False) (keyof T)"

text \<open>\<open>Intersect T U\<close> is \<open>None\<close> when \<^verbatim>\<open>T & U\<close> is \<^verbatim>\<open>never\<close>.\<close>

definition Intersect :: "shape \<Rightarrow> shape \<Rightarrow> shape option" where
  "Intersect T U = (if never_reduced T U then None else Some (Intersect_fields T U))"

text \<open>
  A mapped type \<^verbatim>\<open>{ [P in K]: X }\<close> whose key clause is \<^verbatim>\<open>keyof M\<close>, or a type
  parameter bounded by \<^verbatim>\<open>keyof M\<close>, is homomorphic: each property takes the optionality
  modifier it has in \<open>M\<close>, and the template \<open>X\<close> gives its type.
\<close>

definition mapped :: "shape \<Rightarrow> string list \<Rightarrow> (string \<Rightarrow> ty) \<Rightarrow> shape" where
  "mapped M K X = map (\<lambda>P. (P, Fld (X P) (is_optional M P))) K"

text \<open>
  The library types \<^verbatim>\<open>Exclude<K, E> = K extends E ? never : K\<close> (distributed over the
  names of \<open>K\<close>) and \<^verbatim>\<open>Pick<T, K extends keyof T> = { [P in K]: T[P] }\<close>.
\<close>

definition Exclude :: "string list \<Rightarrow> string list \<Rightarrow> string list" where
  "Exclude K E = filter (\<lambda>P. P \<notin> set E) K"

definition Pick :: "shape \<Rightarrow> string list \<Rightarrow> shape" where
  "Pick T K = mapped T K (\<lambda>P. index T P)"

text \<open>\<^verbatim>\<open>type Omit<T, K> = Pick<T, Exclude<keyof T, K>>\<close>\<close>

definition Omit :: "shape \<Rightarrow> string list \<Rightarrow> shape" where
  "Omit T K = Pick T (Exclude (keyof T) K)"

text \<open>
  \<^verbatim>\<open>type Assign<T, U> = { [P in keyof (T & U)]: P extends keyof T ? T[P]
     : P extends keyof U ? U[P] : never }\<close>.
  \<open>Assign_branch\<close> is the branch of the conditional type that a name selects. The
  mapped type takes its names and its modifiers from \<^verbatim>\<open>T & U\<close>; where that is
  \<^verbatim>\<open>never\<close> it has no property.
\<close>

datatype branch = From_T | From_U | Fallback

definition Assign_branch :: "shape \<Rightarrow> shape \<Rightarrow> string \<Rightarrow> branch" where
  "Assign_branch T U P =
     (if P \<in> set (keyof T) then From_T
      else if P \<in> set (keyof U) then From_U
      else Fallback)"

definition Assign_template :: "shape \<Rightarrow> shape \<Rightarrow> string \<Rightarrow> ty" where
  "Assign_template T U P =
     (case Assign_branch T U P of
        From_T \<Rightarrow> index T P
      | From_U \<Rightarrow> index U P
      | Fallback \<Rightarrow> TNever)"

definition Assign :: "shape \<Rightarrow> shape \<Rightarrow> shape" where
  "Assign T U =
     (case Intersect T U of
        None \<Rightarrow> []
      | Some M \<Rightarrow> mapped M (keyof M) (Assign_template T U))"

text \<open>
  \<^verbatim>\<open>interface I extends B1, ..., Bn { body }\<close>: the members the body declares, then
  the inherited ones. A member the body declares again replaces the inherited one (the
  compiler wants it assignable to the inherited one); a member that several bases
  declare is taken from the first (the compiler wants the declarations identical).
\<close>

fun inherit :: "shape list \<Rightarrow> shape" where
  "inherit [] = []"
| "inherit (B # Bs) = B @ filter (\<lambda>(P, f). P \<notin> set (keyof B)) (inherit Bs)"

definition interface :: "shape list \<Rightarrow> shape \<Rightarrow> shape" where
  "interface bases body = body @ filter (\<lambda>(P, f). P \<notin> set (keyof body)) (inherit bases)"

section \<open>Values and the declarations of other packages\<close>

text \<open>
  The values a prop can hold. No definition below looks at the payload of a number;
  \<open>VOpaque\<close> stands for the values of the other packages (functions, components,
  elements, refs), named.
\<close>

datatype val =
    VUndefined
  | VNull
  | VBool bool
  | VNum int
  | VStr string
  | VObj "(string \<times> val) list"
  | VOpaque string

text \<open>
  The file imports from \<^verbatim>\<open>react\<close>, \<^verbatim>\<open>@emotion/react\<close>, \<^verbatim>\<open>styled-system\<close> and
  \<^verbatim>\<open>@theme-ui/css\<close>. What it uses of them is a parameter of the model:
  the attribute set React gives an element or component type
  (\<^verbatim>\<open>React.ComponentPropsWithRef<T>\<close>, \<^verbatim>\<open>React.ComponentProps<T>\<close>,
  \<^verbatim>\<open>React.IframeHTMLAttributes<T>\<close>), the three prop interfaces of styled-system, and
  which values inhabit a type that another package names.
\<close>

record env =
  ComponentPropsWithRef :: "ty \<Rightarrow> shape"
  ComponentProps :: "ty \<Rightarrow> shape"
  IframeHTMLAttributes :: "ty \<Rightarrow> shape"
  SpaceProps :: shape
  ColorProps :: shape
  MarginProps :: shape
  inhabits :: "string \<Rightarrow> ty list \<Rightarrow> val \<Rightarrow> bool"

definition React_ElementType :: ty where
  "React_ElementType = TExt ''React.ElementType'' []"

definition React_ReactElement :: ty where
  "React_ReactElement = TExt ''React.ReactElement'' []"

definition React_ComponentType :: "shape \<Rightarrow> ty" where
  "React_ComponentType P = TExt ''React.ComponentType'' [TObject P]"

definition Interpolation :: "ty \<Rightarrow> ty" where
  "Interpolation t = TExt ''Interpolation'' [t]"

definition ThemeUIStyleObject :: ty where
  "ThemeUIStyleObject = TExt ''ThemeUIStyleObject'' []"

definition ResponsiveStyleValue :: "ty \<Rightarrow> ty" where
  "ResponsiveStyleValue t = TExt ''ResponsiveStyleValue'' [t]"

text \<open>
  \<open>has_ty E v t\<close>: the value \<open>v\<close> has the type \<open>t\<close>. An object has an object type when
  each declared property is either absent and optional, or present with a value of its
  type.
\<close>

function (sequential) has_ty :: "env \<Rightarrow> val \<Rightarrow> ty \<Rightarrow> bool" where
  "has_ty E v TString = (case v of VStr s \<Rightarrow> True | _ \<Rightarrow> False)"
| "has_ty E v TNumber = (case v of VNum n \<Rightarrow> True | _ \<Rightarrow> False)"
| "has_ty E v TBoolean = (case v of VBool b \<Rightarrow> True | _ \<Rightarrow> False)"
| "has_ty E v TUndefined = (v = VUndefined)"
| "has_ty E v TNull = (v = VNull)"
| "has_ty E v TAny = True"
| "has_ty E v TNever = False"
| "has_ty E v (TLit s) = (v = VStr s)"
| "has_ty E v (TUnion a b) = (has_ty E v a \<or> has_ty E v b)"
| "has_ty E v (TInter a b) = (has_ty E v a \<and> has_ty E v b)"
| "has_ty E v (TObject S) =
     (case v of
        VObj ob \<Rightarrow>
          list_all (\<lambda>(P, f). case map_of ob P of
                                None \<Rightarrow> optional f
                              | Some w \<Rightarrow> has_ty E w (fty f)) S
      | _ \<Rightarrow> False)"
| "has_ty E v (TExt n args) = inhabits E n args v"
  by pat_completeness auto
termination
proof -
  have "size (fty f) < Suc (size_list (size_prod (\<lambda>x. 0) size) S)"
    if "(P, f) \<in> set S" for P :: string and f and S :: shape
    using that
  proof (induction S)
    case Nil
    then show ?case by simp
  next
    case (Cons x S)
    have "size (fty f) < size f" by (cases f) simp
    with Cons show ?case by auto
  qed
  then show ?thesis
    by (relation "measure (\<lambda>(E, v, t). size t)") auto
qed

text \<open>
  \<open>satisfies E ob S\<close>: the props \<open>ob\<close>, written as JSX attributes or as an object
  literal, typecheck against the shape \<open>S\<close>: every property supplied is declared in \<open>S\<close>
  and its value has the declared type, and every required property of \<open>S\<close> is supplied.
\<close>

definition satisfies :: "env \<Rightarrow> (string \<times> val) list \<Rightarrow> shape \<Rightarrow> bool" where
  "satisfies E ob S =
     (list_all (\<lambda>(P, v). case field_of S P of
                            None \<Rightarrow> False
                          | Some f \<Rightarrow> has_ty E v (fty f)) ob \<and>
      list_all (\<lambda>P. is_optional S P \<or> P \<in> set (map fst ob)) (keyof S))"

definition all_optional :: "shape \<Rightarrow> bool" where
  "all_optional S = list_all (\<lambda>P. is_optional S P) (keyof S)"

section \<open>The declared prop shapes\<close>

text \<open>
  \<^verbatim>\<open>interface BoxOwnProps extends SpaceProps, ColorProps
     { as?: React.ElementType; variant?: string; css?: Interpolation<any>;
       sx?: ThemeUIStyleObject }\<close>
\<close>

definition BoxOwnProps :: "env \<Rightarrow> shape" where
  "BoxOwnProps E =
     interface [SpaceProps E, ColorProps E]
       [(''as'', opt React_ElementType),
        (''variant'', opt TString),
        (''css'', opt (Interpolation TAny)),
        (''sx'', opt ThemeUIStyleObject)]"

definition BoxProps :: "env \<Rightarrow> shape" where
  "BoxProps E =
     interface [Assign (ComponentPropsWithRef E (TLit ''div'')) (BoxOwnProps E)] []"

definition FlexOwnProps :: "env \<Rightarrow> shape" where
  "FlexOwnProps E = BoxOwnProps E"

definition FlexProps :: "env \<Rightarrow> shape" where
  "FlexProps E = BoxProps E"

definition GridProps :: "env \<Rightarrow> shape" where
  "GridProps E =
     interface [BoxProps E]
       [(''width'', opt (ResponsiveStyleValue (TUnion TString TNumber))),
        (''columns'', opt (ResponsiveStyleValue (TUnion TString TNumber))),
        (''gap'', opt (ResponsiveStyleValue (TUnion TString TNumber))),
        (''repeat'', opt (TUnion (TLit ''fit'') (TLit ''fill'')))]"

definition ButtonProps :: "env \<Rightarrow> shape" where
  "ButtonProps E =
     interface [Assign (ComponentPropsWithRef E (TLit ''button'')) (BoxOwnProps E)] []"

definition LinkProps :: "env \<Rightarrow> shape" where
  "LinkProps E =
     interface [Assign (ComponentPropsWithRef E (TLit ''a'')) (BoxOwnProps E)] []"

definition TextProps :: "env \<Rightarrow> shape" where
  "TextProps E = BoxProps E"

definition ParagraphProps :: "env \<Rightarrow> shape" where
  "ParagraphProps E =
     interface [Assign (ComponentPropsWithRef E (TLit ''p'')) (BoxOwnProps E)] []"

definition HeadingProps :: "env \<Rightarrow> shape" where
  "HeadingProps E =
     interface [Assign (ComponentPropsWithRef E (TLit ''h2'')) (BoxOwnProps E)] []"

definition ImageProps :: "env \<Rightarrow> shape" where
  "ImageProps E =
     interface [Assign (ComponentPropsWithRef E (TLit ''img'')) (BoxOwnProps E)] []"

definition CardProps :: "env \<Rightarrow> shape" where
  "CardProps E = BoxProps E"

definition LabelProps :: "env \<Rightarrow> shape" where
  "LabelProps E =
     interface [Assign (ComponentPropsWithRef E (TLit ''label'')) (BoxOwnProps E)] []"

definition InputProps :: "env \<Rightarrow> shape" where
  "InputProps E =
     interface [Assign (ComponentPropsWithRef E (TLit ''input'')) (BoxOwnProps E)] []"

definition SelectProps :: "env \<Rightarrow> shape" where
  "SelectProps E =
     interface [Assign (ComponentPropsWithRef E (TLit ''select'')) (BoxOwnProps E)]
       [(''arrow'', opt React_ReactElement)]"

definition TextareaProps :: "env \<Rightarrow> shape" where
  "TextareaProps E =
     interface [Assign (ComponentPropsWithRef E (TLit ''textarea'')) (BoxOwnProps E)] []"

definition RadioProps :: "env \<Rightarrow> shape" where
  "RadioProps E =
     interface [Assign (ComponentPropsWithRef E (TLit ''input'')) (BoxOwnProps E)] []"

definition CheckboxProps :: "env \<Rightarrow> shape" where
  "CheckboxProps E =
     interface [Assign (ComponentPropsWithRef E (TLit ''input'')) (BoxOwnProps E)] []"

definition SliderProps :: "env \<Rightarrow> shape" where
  "SliderProps E =
     interface [Assign (ComponentPropsWithRef E (TLit ''input'')) (BoxOwnProps E)] []"

text \<open>
  \<^verbatim>\<open>interface FieldOwnProps extends MarginProps { label: string; name: string }\<close> and
  \<^verbatim>\<open>type FieldProps<T extends React.ElementType> = FieldOwnProps &
     Omit<React.ComponentPropsWithRef<T>, 'as' | keyof FieldOwnProps> & { as?: T }\<close>.
  The three operands share no name but \<^verbatim>\<open>as\<close>, and that only if \<^verbatim>\<open>MarginProps\<close>
  declares it, so the shape is given by the property table of the intersections. Where
  the compiler would reduce an intersection to \<^verbatim>\<open>never\<close>, the table has a property of
  an empty type, and no props satisfy the one or the other.
\<close>

definition FieldOwnProps :: "env \<Rightarrow> shape" where
  "FieldOwnProps E =
     interface [MarginProps E]
       [(''label'', req TString),
        (''name'', req TString)]"

definition FieldProps :: "env \<Rightarrow> ty \<Rightarrow> shape" where
  "FieldProps E T =
     Intersect_fields
       (Intersect_fields (FieldOwnProps E)
          (Omit (ComponentPropsWithRef E T) (''as'' # keyof (FieldOwnProps E))))
       [(''as'', opt T)]"

text \<open>
  \<^verbatim>\<open>function Field<T extends React.ElementType = React.ComponentType<InputProps>>
     (props: FieldProps<T>): JSX.Element\<close>: the props of a call of \<open>Field\<close>, given the
  type argument (written, or inferred from the \<^verbatim>\<open>as\<close> prop) when there is one.
\<close>

definition Field_props :: "env \<Rightarrow> ty option \<Rightarrow> shape" where
  "Field_props E targ =
     FieldProps E (case targ of Some T \<Rightarrow> T | None \<Rightarrow> React_ComponentType (InputProps E))"

definition ProgressProps :: "env \<Rightarrow> shape" where
  "ProgressProps E =
     interface [Assign (ComponentPropsWithRef E (TLit ''progress'')) (BoxOwnProps E)] []"

definition DonutProps :: "env \<Rightarrow> shape" where
  "DonutProps E =
     interface
       [Assign
          (Omit (ComponentPropsWithRef E (TLit ''svg''))
             [''opacity'', ''color'', ''css'', ''sx'', ''max'', ''min''])
          (BoxOwnProps E)]
       [(''value'', req TNumber),
        (''min'', opt TNumber),
        (''max'', opt TNumber),
        (''title'', opt TString),
        (''size'', opt (TUnion TString TNumber))]"

definition SpinnerProps :: "env \<Rightarrow> shape" where
  "SpinnerProps E =
     interface
       [Assign
          (Omit (ComponentPropsWithRef E (TLit ''svg''))
             [''opacity'', ''color'', ''css'', ''sx''])
          (BoxOwnProps E)]
       [(''size'', opt (TUnion TNumber TString))]"

definition AvatarProps :: "env \<Rightarrow> shape" where
  "AvatarProps E =
     interface [ImageProps E]
       [(''size'', opt (TUnion TNumber TString))]"

definition BadgeProps :: "env \<Rightarrow> shape" where
  "BadgeProps E = BoxProps E"

definition IconButtonProps :: "env \<Rightarrow> shape" where
  "IconButtonProps E =
     interface [Assign (ComponentPropsWithRef E (TLit ''button'')) (BoxOwnProps E)]
       [(''size'', opt (TUnion TNumber TString))]"

definition CloseProps :: "env \<Rightarrow> shape" where
  "CloseProps E = interface [Omit (IconButtonProps E) [''children'']] []"

definition AlertProps :: "env \<Rightarrow> shape" where
  "AlertProps E = BoxProps E"

definition DividerProps :: "env \<Rightarrow> shape" where
  "DividerProps E = BoxProps E"

definition EmbedProps :: "env \<Rightarrow> shape" where
  "EmbedProps E =
     interface [Assign (ComponentPropsWithRef E (TLit ''iframe'')) (BoxOwnProps E)]
       [(''variant'', opt TString),
        (''ratio'', opt TNumber),
        (''src'', opt (index (IframeHTMLAttributes E TAny) ''src'')),
        (''frameBorder'', opt (index (IframeHTMLAttributes E TAny) ''frameBorder'')),
        (''allowFullScreen'', opt (index (IframeHTMLAttributes E TAny) ''allowFullScreen'')),
        (''allow'', opt (index (IframeHTMLAttributes E TAny) ''allow''))]"

definition AspectRatioProps :: "env \<Rightarrow> shape" where
  "AspectRatioProps E =
     interface [BoxProps E]
       [(''ratio'', opt TNumber)]"

definition AspectImageProps :: "env \<Rightarrow> shape" where
  "AspectImageProps E =
     interface [ImageProps E]
       [(''ratio'', opt TNumber)]"

definition ContainerProps :: "env \<Rightarrow> shape" where
  "ContainerProps E = BoxProps E"

definition NavLinkProps :: "env \<Rightarrow> shape" where
  "NavLinkProps E = LinkProps E"

definition MessageProps :: "env \<Rightarrow> shape" where
  "MessageProps E = BoxProps E"

definition MenuButtonProps :: "env \<Rightarrow> shape" where
  "MenuButtonProps E = IconButtonProps E"

definition SwitchProps :: "env \<Rightarrow> shape" where
  "SwitchProps E =
     interface [Assign (ComponentProps E (TLit ''input'')) (BoxOwnProps E)]
       [(''label'', opt TString)]"

section \<open>The exported components\<close>

datatype component =
    Box | Flex | Grid | Button | Link | Text | Paragraph | Heading | Image | Card
  | Label | Input | Select | Textarea | Radio | Checkbox | Slider | Field | Progress
  | Donut | Spinner | Avatar | Badge | Close | Alert | Divider | Embed | AspectRatio
  | AspectImage | Container | NavLink | Message | IconButton | MenuButton | Switch

text \<open>
  One entry for each \<^verbatim>\<open>export const\<close> (and for the function \<^verbatim>\<open>Field\<close>, at its default
  type argument), in the order of the file: the component, the attribute set of the
  native host that its props shape is built from, and the props shape the export
  declares. The wrappers \<^verbatim>\<open>StyledComponent\<close> and \<^verbatim>\<open>ForwardRef\<close> of the declarations
  belong to other packages; an entry keeps the props shape they are applied to.
\<close>

definition registry :: "env \<Rightarrow> (component \<times> shape \<times> shape) list" where
  "registry E =
     [(Box, ComponentPropsWithRef E (TLit ''div''), BoxProps E),
      (Flex, ComponentPropsWithRef E (TLit ''div''), FlexProps E),
      (Grid, ComponentPropsWithRef E (TLit ''div''), GridProps E),
      (Button, ComponentPropsWithRef E (TLit ''button''), ButtonProps E),
      (Link, ComponentPropsWithRef E (TLit ''a''), LinkProps E),
      (Text, ComponentPropsWithRef E (TLit ''div''), BoxProps E),
      (Paragraph, ComponentPropsWithRef E (TLit ''p''), ParagraphProps E),
      (Heading, ComponentPropsWithRef E (TLit ''h2''), HeadingProps E),
      (Image, ComponentPropsWithRef E (TLit ''img''), ImageProps E),
      (Card, ComponentPropsWithRef E (TLit ''div''), CardProps E),
      (Label, ComponentPropsWithRef E (TLit ''label''), LabelProps E),
      (Input, ComponentPropsWithRef E (TLit ''input''), InputProps E),
      (Select, ComponentPropsWithRef E (TLit ''select''), SelectProps E),
      (Textarea, ComponentPropsWithRef E (TLit ''textarea''), TextareaProps E),
      (Radio, ComponentPropsWithRef E (TLit ''input''), RadioProps E),
      (Checkbox, ComponentPropsWithRef E (TLit ''input''), CheckboxProps E),
      (Slider, ComponentPropsWithRef E (TLit ''input''), SliderProps E),
      (Field, ComponentPropsWithRef E (React_ComponentType (InputProps E)),
         Field_props E None),
      (Progress, ComponentPropsWithRef E (TLit ''progress''), ProgressProps E),
      (Donut, ComponentPropsWithRef E (TLit ''svg''), DonutProps E),
      (Spinner, ComponentPropsWithRef E (TLit ''svg''), SpinnerProps E),
      (Avatar, ComponentPropsWithRef E (TLit ''img''), AvatarProps E),
      (Badge, ComponentPropsWithRef E (TLit ''div''), BadgeProps E),
      (Close, ComponentPropsWithRef E (TLit ''button''), CloseProps E),
      (Alert, ComponentPropsWithRef E (TLit ''div''), AlertProps E),
      (Divider, ComponentPropsWithRef E (TLit ''div''), DividerProps E),
      (Embed, ComponentPropsWithRef E (TLit ''iframe''), EmbedProps E),
      (AspectRatio, ComponentPropsWithRef E (TLit ''div''), AspectRatioProps E),
      (AspectImage, ComponentPropsWithRef E (TLit ''img''), AspectImageProps E),
      (Container, ComponentPropsWithRef E (TLit ''div''), ContainerProps E),
      (NavLink, ComponentPropsWithRef E (TLit ''a''), NavLinkProps E),
      (Message, ComponentPropsWithRef E (TLit ''div''), MessageProps E),
      (IconButton, ComponentPropsWithRef E (TLit ''button''), IconButtonProps E),
      (MenuButton, ComponentPropsWithRef E (TLit ''button''), MenuButtonProps E),
      (Switch, ComponentProps E (TLit ''input''), SwitchProps E)]"

definition props_of :: "env \<Rightarrow> component \<Rightarrow> shape option" where
  "props_of E c = map_option snd (map_of (registry E) c)"

text \<open>
  The components whose props shape does not accept every value of what it is built on:
  \<open>Field\<close> requires \<^verbatim>\<open>label\<close> and \<^verbatim>\<open>name\<close>, \<open>Donut\<close> requires \<^verbatim>\<open>value\<close> and narrows
  \<^verbatim>\<open>min\<close> and \<^verbatim>\<open>max\<close>, and \<open>Close\<close> removes \<^verbatim>\<open>children\<close>.
\<close>

definition overriding :: "component list" where
  "overriding = [Field, Donut, Close]"

text \<open>
  What the native-wins rule needs of the declarations of the other packages.
  \<^item> The fields of \<^verbatim>\<open>SpaceProps\<close> and \<^verbatim>\<open>ColorProps\<close> are optional.
  \<^item> The names that an interface body adds to a composed shape are not names of the
    host's native attributes.
  \<^item> The four attributes that \<^verbatim>\<open>EmbedProps\<close> declares again, by indexing
    \<^verbatim>\<open>React.IframeHTMLAttributes<any>\<close>, are declared there as in the attributes of
    \<^verbatim>\<open>iframe\<close>.
  \<^item> At the names that \<^verbatim>\<open>SpinnerProps\<close> removes from the attributes of \<^verbatim>\<open>svg\<close>, an
    attribute that \<^verbatim>\<open>svg\<close> declares is declared by the own props too, with a type that
    every value of the native type has.
  \<^item> The compiler does not reduce the intersection of a host's attributes with the own
    props to \<^verbatim>\<open>never\<close>.
\<close>

definition fresh :: "shape \<Rightarrow> string list \<Rightarrow> bool" where
  "fresh S names = list_all (\<lambda>P. P \<notin> set (keyof S)) names"

definition same_fields :: "shape \<Rightarrow> shape \<Rightarrow> string list \<Rightarrow> bool" where
  "same_fields S S' names = list_all (\<lambda>P. field_of S P = field_of S' P) names"

definition admits :: "env \<Rightarrow> shape \<Rightarrow> shape \<Rightarrow> string list \<Rightarrow> bool" where
  "admits E N U names =
     list_all (\<lambda>P. case field_of N P of
                    None \<Rightarrow> True
                  | Some f \<Rightarrow>
                      (case field_of U P of
                         None \<Rightarrow> False
                       | Some g \<Rightarrow> \<forall>v. has_ty E v (fty f) \<longrightarrow> has_ty E v (fty g))) names"

definition own_optional :: "env \<Rightarrow> bool" where
  "own_optional E = (all_optional (SpaceProps E) \<and> all_optional (ColorProps E))"

definition body_names_fresh :: "env \<Rightarrow> bool" where
  "body_names_fresh E =
     (fresh (ComponentPropsWithRef E (TLit ''div''))
        [''width'', ''columns'', ''gap'', ''repeat'', ''ratio''] \<and>
      fresh (ComponentPropsWithRef E (TLit ''select'')) [''arrow''] \<and>
      fresh (ComponentPropsWithRef E (TLit ''img'')) [''size'', ''ratio''] \<and>
      fresh (ComponentPropsWithRef E (TLit ''button'')) [''size''] \<and>
      fresh (ComponentPropsWithRef E (TLit ''svg'')) [''size''] \<and>
      fresh (ComponentProps E (TLit ''input'')) [''label''] \<and>
      fresh (ComponentPropsWithRef E (TLit ''iframe'')) [''variant'', ''ratio''])"

definition embed_attributes_native :: "env \<Rightarrow> bool" where
  "embed_attributes_native E =
     same_fields (ComponentPropsWithRef E (TLit ''iframe'')) (IframeHTMLAttributes E TAny)
       [''src'', ''frameBorder'', ''allowFullScreen'', ''allow'']"

definition spinner_admits_native :: "env \<Rightarrow> bool" where
  "spinner_admits_native E =
     admits E (ComponentPropsWithRef E (TLit ''svg'')) (BoxOwnProps E)
       [''opacity'', ''color'', ''css'', ''sx'']"

definition hosts :: "env \<Rightarrow> shape list" where
  "hosts E =
     map (\<lambda>tag. ComponentPropsWithRef E (TLit tag))
       [''div'', ''button'', ''a'', ''p'', ''h2'', ''img'', ''label'', ''input'', ''select'',
        ''textarea'', ''progress'', ''svg'', ''iframe''] @
     [ComponentProps E (TLit ''input'')]"

definition hosts_not_reduced :: "env \<Rightarrow> bool" where
  "hosts_not_reduced E = list_all (\<lambda>N. \<not> never_reduced N (BoxOwnProps E)) (hosts E)"

definition env_ok :: "env \<Rightarrow> bool" where
  "env_ok E =
     (own_optional E \<and> body_names_fresh E \<and> embed_attributes_native E \<and>
      spinner_admits_native E \<and> hosts_not_reduced E)"

section \<open>Default variants\<close>

text \<open>
  Modelled from the spec: the code that resolves a component's variant against the
  theme is not among the declarations; what is given is section 4.4 of the
  specification (each component has one default bucket, as \<^verbatim>\<open>Container\<close> has
  \<^verbatim>\<open>theme.layout.container\<close> and \<^verbatim>\<open>Alert\<close> has \<^verbatim>\<open>theme.alerts.primary\<close>) and the
  documentation comments of the declarations, which name the default of the components
  listed here.
\<close>

definition default_variant :: "(component \<times> string) list" where
  "default_variant =
     [(Link, ''theme.styles.a''),
      (Paragraph, ''theme.text.paragraph''),
      (Heading, ''theme.text.heading''),
      (Card, ''theme.cards.primary''),
      (Label, ''theme.forms.label''),
      (Input, ''theme.forms.input''),
      (Select, ''theme.forms.select''),
      (Textarea, ''theme.forms.textarea''),
      (Radio, ''theme.forms.radio''),
      (Checkbox, ''theme.forms.checkbox''),
      (Slider, ''theme.forms.slider''),
      (Close, ''theme.buttons.close''),
      (Alert, ''theme.alerts.primary''),
      (Divider, ''theme.styles.hr''),
      (Container, ''theme.layout.container''),
      (NavLink, ''theme.links.nav''),
      (IconButton, ''theme.buttons.icon''),
      (MenuButton, ''theme.buttons.menu''),
      (Switch, ''theme.forms.switch'')]"

definition default_bucket :: "component \<Rightarrow> string option" where
  "default_bucket c = map_of default_variant c"

section \<open>The specification's wording of three shapes\<close>

text \<open>
  The props of \<^verbatim>\<open>Field<T>\<close> as the specification words them: \<^verbatim>\<open>label\<close> and
  \<^verbatim>\<open>name\<close>, every prop of \<open>T\<close> except \<^verbatim>\<open>as\<close>, \<^verbatim>\<open>label\<close> and \<^verbatim>\<open>name\<close>, and
  \<^verbatim>\<open>as?: T\<close>.
\<close>

definition FieldProps_spec :: "env \<Rightarrow> ty \<Rightarrow> shape" where
  "FieldProps_spec E T =
     [(''label'', req TString), (''name'', req TString)] @
     Omit (ComponentPropsWithRef E T) [''as'', ''label'', ''name''] @
     [(''as'', opt T)]"

text \<open>
  The props of \<^verbatim>\<open>Donut\<close> and of \<^verbatim>\<open>Spinner\<close> as the specification words them: the
  native SVG attributes without \<^verbatim>\<open>opacity\<close>, \<^verbatim>\<open>color\<close>, \<^verbatim>\<open>min\<close> and \<^verbatim>\<open>max\<close>
  (for \<^verbatim>\<open>Spinner\<close>, without \<^verbatim>\<open>opacity\<close> and \<^verbatim>\<open>color\<close>), composed with the own props,
  under the interface bodies of the declarations.
\<close>

definition DonutProps_spec :: "env \<Rightarrow> shape" where
  "DonutProps_spec E =
     interface
       [Assign
          (Omit (ComponentPropsWithRef E (TLit ''svg''))
             [''opacity'', ''color'', ''min'', ''max''])
          (BoxOwnProps E)]
       [(''value'', req TNumber),
        (''min'', opt TNumber),
        (''max'', opt TNumber),
        (''title'', opt TString),
        (''size'', opt (TUnion TString TNumber))]"

definition SpinnerProps_spec :: "env \<Rightarrow> shape" where
  "SpinnerProps_spec E =
     interface
       [Assign
          (Omit (ComponentPropsWithRef E (TLit ''svg'')) [''opacity'', ''color''])
          (BoxOwnProps E)]
       [(''size'', opt (TUnion TNumber TString))]"

section \<open>A sample of the other packages' declarations\<close>

text \<open>
  An excerpt of the declarations of \<^verbatim>\<open>@types/react\<close> and of \<^verbatim>\<open>styled-system\<close>, on
  which the definitions above are evaluated. Every attribute set has the attributes
  that React gives every element (\<^verbatim>\<open>ref\<close> and \<^verbatim>\<open>key\<close> among them) and some of the
  attributes of its own element. \<^verbatim>\<open>ComponentPropsWithRef\<close> types \<^verbatim>\<open>ref\<close> as
  \<^verbatim>\<open>Ref\<close>, \<^verbatim>\<open>ComponentProps\<close> as \<^verbatim>\<open>LegacyRef\<close>. No element has a \<^verbatim>\<open>css\<close> or an
  \<^verbatim>\<open>sx\<close> attribute.
\<close>

definition dom_attributes :: "ty \<Rightarrow> shape" where
  "dom_attributes ref =
     [(''ref'', opt ref),
      (''key'', opt (TUnion (TUnion TString TNumber) TNull)),
      (''children'', opt (TExt ''React.ReactNode'' [])),
      (''className'', opt TString),
      (''id'', opt TString),
      (''color'', opt TString),
      (''onClick'', opt (TExt ''React.MouseEventHandler'' []))]"

definition iframe_attributes :: shape where
  "iframe_attributes =
     [(''src'', opt TString),
      (''allow'', opt TString),
      (''allowFullScreen'', opt TBoolean),
      (''frameBorder'', opt (TUnion TNumber TString))]"

definition form_value :: ty where
  "form_value = TUnion (TUnion TString (TExt ''ReadonlyArray'' [TString])) TNumber"

fun sample_attributes :: "string \<Rightarrow> shape" where
  "sample_attributes tag =
     (if tag = ''svg'' then
        [(''opacity'', opt (TUnion TNumber TString)),
         (''min'', opt (TUnion TNumber TString)),
         (''max'', opt (TUnion TNumber TString)),
         (''viewBox'', opt TString),
         (''fill'', opt TString)]
      else if tag = ''input'' then
        [(''name'', opt TString),
         (''type'', opt TString),
         (''value'', opt form_value),
         (''checked'', opt TBoolean),
         (''min'', opt (TUnion TNumber TString)),
         (''max'', opt (TUnion TNumber TString))]
      else if tag = ''button'' then
        [(''name'', opt TString),
         (''disabled'', opt TBoolean),
         (''type'', opt (TUnion (TLit ''submit'') (TUnion (TLit ''reset'') (TLit ''button''))))]
      else if tag = ''iframe'' then iframe_attributes
      else if tag = ''img'' then
        [(''src'', opt TString),
         (''alt'', opt TString),
         (''width'', opt (TUnion TNumber TString))]
      else if tag = ''a'' then [(''href'', opt TString), (''target'', opt TString)]
      else if tag = ''label'' then [(''htmlFor'', opt TString)]
      else if tag = ''select'' then [(''name'', opt TString), (''multiple'', opt TBoolean)]
      else if tag = ''textarea'' then [(''name'', opt TString), (''rows'', opt TNumber)]
      else if tag = ''progress'' then
        [(''value'', opt form_value), (''max'', opt (TUnion TNumber TString))]
      else [])"

text \<open>
  The props React gives \<^verbatim>\<open>React.ComponentType<P>\<close>, which is the union of
  \<^verbatim>\<open>ComponentClass<P>\<close> and \<^verbatim>\<open>FunctionComponent<P>\<close>. \<^verbatim>\<open>ComponentProps\<close> gives \<open>P\<close>.
  \<^verbatim>\<open>ComponentPropsWithRef\<close> distributes over the union and gives the union of
  \<^verbatim>\<open>PropsWithoutRef<P> & RefAttributes<Component<P>>\<close> and \<^verbatim>\<open>PropsWithRef<P>\<close>; the
  properties of that union, which \<^verbatim>\<open>keyof\<close> and indexing see, are those of \<open>P\<close>, with
  the \<^verbatim>\<open>ref\<close> of \<open>P\<close> (when it has one) widened by a ref to the class component.
\<close>

definition component_props :: "shape \<Rightarrow> shape" where
  "component_props P =
     map (\<lambda>(k, f).
            if k = ''ref''
            then (k, Fld (TUnion (TUnion (TExt ''React.Ref'' [TExt ''React.Component'' [TObject P]])
                                    TUndefined)
                            (fty f)) True)
            else (k, f)) P"

fun sample_props :: "bool \<Rightarrow> ty \<Rightarrow> shape" where
  "sample_props with_ref (TLit tag) =
     dom_attributes (if with_ref then TExt ''React.Ref'' [TLit tag]
                     else TExt ''React.LegacyRef'' [TLit tag]) @
     sample_attributes tag"
| "sample_props with_ref (TExt n [TObject P]) =
     (if n = ''React.ComponentType'' then (if with_ref then component_props P else P) else [])"
| "sample_props with_ref t = []"

definition sample_margin :: ty where
  "sample_margin = TExt ''ResponsiveValue'' [TExt ''ThemeValue'' [TLit ''space'']]"

definition sample_MarginProps :: shape where
  "sample_MarginProps =
     [(''m'', opt sample_margin), (''margin'', opt sample_margin),
      (''mt'', opt sample_margin), (''marginTop'', opt sample_margin),
      (''mr'', opt sample_margin), (''marginRight'', opt sample_margin),
      (''mb'', opt sample_margin), (''marginBottom'', opt sample_margin),
      (''ml'', opt sample_margin), (''marginLeft'', opt sample_margin),
      (''mx'', opt sample_margin), (''marginX'', opt sample_margin),
      (''my'', opt sample_margin), (''marginY'', opt sample_margin)]"

definition sample_PaddingProps :: shape where
  "sample_PaddingProps =
     [(''p'', opt sample_margin), (''padding'', opt sample_margin),
      (''pt'', opt sample_margin), (''paddingTop'', opt sample_margin),
      (''pr'', opt sample_margin), (''paddingRight'', opt sample_margin),
      (''pb'', opt sample_margin), (''paddingBottom'', opt sample_margin),
      (''pl'', opt sample_margin), (''paddingLeft'', opt sample_margin),
      (''px'', opt sample_margin), (''paddingX'', opt sample_margin),
      (''py'', opt sample_margin), (''paddingY'', opt sample_margin)]"

definition sample_SpaceProps :: shape where
  "sample_SpaceProps = sample_MarginProps @ sample_PaddingProps"

definition sample_ColorProps :: shape where
  "sample_ColorProps =
     [(''color'', opt (TExt ''ResponsiveValue'' [TExt ''Property.Color'' []])),
      (''bg'', opt (TExt ''ResponsiveValue'' [TExt ''Property.Color'' []])),
      (''backgroundColor'', opt (TExt ''ResponsiveValue'' [TExt ''Property.Color'' []])),
      (''opacity'', opt (TExt ''ResponsiveValue'' [TExt ''Property.Opacity'' []]))]"

text \<open>
  A responsive value is a value of its argument (a string; also a number, unless the
  argument is a colour), \<^verbatim>\<open>null\<close>, or an array or object of them. A React node is any
  value but a function or a ref; a read-only array is an object. The other named types
  are inhabited by the opaque values of their name.
\<close>

definition sample_inhabits :: "string \<Rightarrow> ty list \<Rightarrow> val \<Rightarrow> bool" where
  "sample_inhabits n args v =
     (if n = ''ResponsiveValue'' \<or> n = ''ResponsiveStyleValue'' then
        (case v of
           VStr s \<Rightarrow> True
         | VNum k \<Rightarrow> args \<noteq> [TExt ''Property.Color'' []]
         | VNull \<Rightarrow> True
         | VObj ob \<Rightarrow> True
         | _ \<Rightarrow> False)
      else if n = ''React.ReactNode'' then
        (case v of VOpaque m \<Rightarrow> m = ''React.ReactElement'' | _ \<Rightarrow> True)
      else if n = ''ReadonlyArray'' then
        (case v of VObj ob \<Rightarrow> True | _ \<Rightarrow> False)
      else (case v of VOpaque m \<Rightarrow> m = n | _ \<Rightarrow> False))"

definition sample_env :: env where
  "sample_env =
     \<lparr> ComponentPropsWithRef = sample_props True,
       ComponentProps = sample_props False,
       IframeHTMLAttributes = (\<lambda>t. iframe_attributes),
       SpaceProps = sample_SpaceProps,
       ColorProps = sample_ColorProps,
       MarginProps = sample_MarginProps,
       inhabits = sample_inhabits \<rparr>"

text \<open>
  The props of a form control of an application, which has a boolean prop named
  \<^verbatim>\<open>margin\<close> of its own.
\<close>

definition Custom_props :: shape where
  "Custom_props =
     [(''value'', opt TString),
      (''margin'', opt TBoolean)]"

section \<open>Properties of the type operators\<close>

lemma field_of_None_iff: "field_of T P = None \<longleftrightarrow> P \<notin> set (keyof T)"
  by (simp add: field_of_def keyof_def map_of_eq_None_iff)

lemma field_of_Some_keyof: "field_of T P = Some f \<Longrightarrow> P \<in> set (keyof T)"
  using field_of_None_iff [of T P] by auto

lemma inter_field_None_iff: "inter_field a b = None \<longleftrightarrow> a = None \<and> b = None"
  by (cases a; cases b) auto

lemma keyof_mapped: "keyof (mapped M K X) = K"
  by (simp add: keyof_def mapped_def comp_def)

lemma field_of_mapped:
  "field_of (mapped M K X) P =
     (if P \<in> set K then Some (Fld (X P) (is_optional M P)) else None)"
  by (simp add: field_of_def mapped_def map_of_map_restrict restrict_map_def)

lemma map_of_map_filter_Pair:
  "map_of (List.map_filter (\<lambda>P. map_option (Pair P) (g P)) ks) P =
     (if P \<in> set ks then g P else None)"
  by (induction ks) (auto simp: map_filter_simps split: option.splits)

lemma field_of_Intersect_fields:
  "field_of (Intersect_fields T U) P = inter_field (field_of T P) (field_of U P)"
proof -
  have none: "inter_field (map_of T P) (map_of U P) = None"
    if "P \<notin> fst ` set T" "P \<notin> fst ` set U"
    using that by (simp add: inter_field_None_iff map_of_eq_None_iff)
  have "map_of (Intersect_fields T U) P = inter_field (map_of T P) (map_of U P)"
    unfolding Intersect_fields_def field_of_def keyof_def map_of_map_filter_Pair
    using none by auto
  then show ?thesis by (simp add: field_of_def)
qed

lemma keyof_Intersect_fields_set:
  "set (keyof (Intersect_fields T U)) = set (keyof T) \<union> set (keyof U)"
proof -
  have "P \<in> set (keyof (Intersect_fields T U)) \<longleftrightarrow> P \<in> set (keyof T) \<union> set (keyof U)"
    for P
    using field_of_None_iff [of "Intersect_fields T U" P] field_of_None_iff [of T P]
      field_of_None_iff [of U P]
    by (simp add: field_of_Intersect_fields inter_field_None_iff) blast
  then show ?thesis by blast
qed

lemma never_reduced_iff:
  "never_reduced T U \<longleftrightarrow>
     (\<exists>P f g. field_of T P = Some f \<and> field_of U P = Some g \<and> fty f \<noteq> fty g \<and>
        (literal_ty (fty f) \<or> literal_ty (fty g)) \<and> fty f \<noteq> TNever \<and> fty g \<noteq> TNever \<and>
        empty_ty (TInter (fty f) (fty g)))"
proof
  assume "never_reduced T U"
  then show "\<exists>P f g. field_of T P = Some f \<and> field_of U P = Some g \<and> fty f \<noteq> fty g \<and>
        (literal_ty (fty f) \<or> literal_ty (fty g)) \<and> fty f \<noteq> TNever \<and> fty g \<noteq> TNever \<and>
        empty_ty (TInter (fty f) (fty g))"
  proof -
    from \<open>never_reduced T U\<close> obtain P where
      "case (field_of T P, field_of U P) of
         (Some f, Some g) \<Rightarrow>
           fty f \<noteq> fty g \<and> (literal_ty (fty f) \<or> literal_ty (fty g)) \<and>
           fty f \<noteq> TNever \<and> fty g \<noteq> TNever \<and> empty_ty (TInter (fty f) (fty g))
       | _ \<Rightarrow> False"
      unfolding never_reduced_def list_ex_iff by blast
    then show ?thesis
      by (cases "field_of T P"; cases "field_of U P") auto
  qed
next
  assume "\<exists>P f g. field_of T P = Some f \<and> field_of U P = Some g \<and> fty f \<noteq> fty g \<and>
        (literal_ty (fty f) \<or> literal_ty (fty g)) \<and> fty f \<noteq> TNever \<and> fty g \<noteq> TNever \<and>
        empty_ty (TInter (fty f) (fty g))"
  then obtain P f g where *: "field_of T P = Some f" "field_of U P = Some g" "fty f \<noteq> fty g"
      "literal_ty (fty f) \<or> literal_ty (fty g)" "fty f \<noteq> TNever" "fty g \<noteq> TNever"
      "empty_ty (TInter (fty f) (fty g))"
    by blast
  from field_of_Some_keyof [OF *(1)] * show "never_reduced T U"
    unfolding never_reduced_def list_ex_iff by (intro bexI [of _ P]) auto
qed

lemma Assign_reduced: "never_reduced T U \<Longrightarrow> Assign T U = []"
  by (simp add: Assign_def Intersect_def)


lemma field_of_Assign:
  assumes "\<not> never_reduced T U"
  shows "field_of (Assign T U) P =
     (case field_of T P of
        Some f \<Rightarrow> Some (Fld (fty f) (case field_of U P of Some g \<Rightarrow> optional f \<and> optional g | None \<Rightarrow> optional f))
      | None \<Rightarrow> field_of U P)"
proof -
  have opt: "is_optional (Intersect_fields T U) P =
      (case inter_field (field_of T P) (field_of U P) of Some f \<Rightarrow> optional f | None \<Rightarrow> False)"
    by (simp add: is_optional_def field_of_Intersect_fields)
  show ?thesis
    using assms field_of_None_iff [of T P] field_of_None_iff [of U P]
    by (auto simp: Assign_def Intersect_def field_of_mapped keyof_Intersect_fields_set opt
        Assign_template_def Assign_branch_def index_def split: option.splits)
qed

lemma field_of_append:
  "field_of (A @ B) P = (case field_of A P of Some f \<Rightarrow> Some f | None \<Rightarrow> field_of B P)"
  by (simp add: field_of_def map_add_def split: option.splits)

lemma field_of_filter_keys:
  "field_of (filter (\<lambda>(Q, f). Q \<notin> set K) S) P = (if P \<in> set K then None else field_of S P)"
  by (induction S) (auto simp: field_of_def)

lemma field_of_inherit_Cons:
  "field_of (inherit (B # Bs)) P =
     (case field_of B P of Some f \<Rightarrow> Some f | None \<Rightarrow> field_of (inherit Bs) P)"
  using field_of_None_iff [of B P]
  by (auto simp: field_of_append field_of_filter_keys split: option.splits)

lemma field_of_inherit_Nil: "field_of (inherit []) P = None"
  by (simp add: field_of_def)

lemma field_of_interface:
  "field_of (interface bases body) P =
     (case field_of body P of Some f \<Rightarrow> Some f | None \<Rightarrow> field_of (inherit bases) P)"
  using field_of_None_iff [of body P]
  by (auto simp: interface_def field_of_append field_of_filter_keys split: option.splits)

lemma field_of_interface_single:
  "field_of (interface [B] body) P =
     (case field_of body P of Some f \<Rightarrow> Some f | None \<Rightarrow> field_of B P)"
  by (simp add: field_of_interface field_of_inherit_Cons field_of_inherit_Nil split: option.splits)

lemma field_of_interface_empty: "field_of (interface [B] []) P = field_of B P"
  by (simp add: field_of_interface_single) (simp add: field_of_def)

lemma field_of_Cons:
  "field_of ((Q, f) # S) P = (if P = Q then Some f else field_of S P)"
  by (simp add: field_of_def)

lemma field_of_Nil: "field_of [] P = None"
  by (simp add: field_of_def)

lemma field_self: "field_of T P = Some f \<Longrightarrow> Fld (index T P) (is_optional T P) = f"
  by (simp add: index_def is_optional_def)

lemma field_of_Pick:
  "field_of (Pick T K) P =
     (if P \<in> set K then Some (Fld (index T P) (is_optional T P)) else None)"
  by (simp add: Pick_def field_of_mapped)

lemma field_of_Omit:
  "field_of (Omit T K) P = (if P \<in> set K then None else field_of T P)"
proof (cases "field_of T P")
  case None
  then show ?thesis
    using field_of_None_iff [of T P] by (simp add: Omit_def field_of_Pick Exclude_def)
next
  case (Some f)
  then show ?thesis
    using field_of_Some_keyof [OF Some] field_self [OF Some]
    by (simp add: Omit_def field_of_Pick Exclude_def)
qed

lemma satisfies_iff:
  "satisfies E ob S \<longleftrightarrow>
     (\<forall>(P, v) \<in> set ob. \<exists>f. field_of S P = Some f \<and> has_ty E v (fty f)) \<and>
     (\<forall>P f. field_of S P = Some f \<longrightarrow> optional f \<or> P \<in> fst ` set ob)"
proof -
  have req: "(\<forall>P \<in> set (keyof S). is_optional S P \<or> P \<in> fst ` set ob) \<longleftrightarrow>
      (\<forall>P f. field_of S P = Some f \<longrightarrow> optional f \<or> P \<in> fst ` set ob)"
  proof (intro iffI allI impI ballI)
    fix P f
    assume a: "\<forall>P \<in> set (keyof S). is_optional S P \<or> P \<in> fst ` set ob"
      and f: "field_of S P = Some f"
    from field_of_Some_keyof [OF f] a have "is_optional S P \<or> P \<in> fst ` set ob" by blast
    with f show "optional f \<or> P \<in> fst ` set ob" by (simp add: is_optional_def)
  next
    fix P
    assume a: "\<forall>P f. field_of S P = Some f \<longrightarrow> optional f \<or> P \<in> fst ` set ob"
      and k: "P \<in> set (keyof S)"
    from k obtain f where f: "field_of S P = Some f"
      using field_of_None_iff [of S P] by auto
    with a have "optional f \<or> P \<in> fst ` set ob" by blast
    with f show "is_optional S P \<or> P \<in> fst ` set ob" by (simp add: is_optional_def)
  qed
  have sup: "list_all (\<lambda>(P, v). case field_of S P of None \<Rightarrow> False
                 | Some f \<Rightarrow> has_ty E v (fty f)) ob \<longleftrightarrow>
      (\<forall>(P, v) \<in> set ob. \<exists>f. field_of S P = Some f \<and> has_ty E v (fty f))"
    by (auto simp: list_all_iff split: option.splits)
  show ?thesis
    unfolding satisfies_def sup using req by (simp add: list_all_iff)
qed

lemma all_optional_iff:
  "all_optional S \<longleftrightarrow> (\<forall>P f. field_of S P = Some f \<longrightarrow> optional f)"
proof
  assume a: "all_optional S"
  show "\<forall>P f. field_of S P = Some f \<longrightarrow> optional f"
  proof (intro allI impI)
    fix P f assume f: "field_of S P = Some f"
    from field_of_Some_keyof [OF f] a have "is_optional S P"
      by (simp add: all_optional_def list_all_iff)
    with f show "optional f" by (simp add: is_optional_def)
  qed
next
  assume a: "\<forall>P f. field_of S P = Some f \<longrightarrow> optional f"
  show "all_optional S"
    unfolding all_optional_def list_all_iff
  proof
    fix P assume "P \<in> set (keyof S)"
    then obtain f where f: "field_of S P = Some f"
      using field_of_None_iff [of S P] by auto
    with a show "is_optional S P" by (simp add: is_optional_def)
  qed
qed

lemma satisfies_interface:
  assumes "satisfies E ob B" and "all_optional body"
    and "\<forall>(P, v) \<in> set ob. \<forall>g. field_of body P = Some g \<longrightarrow> has_ty E v (fty g)"
  shows "satisfies E ob (interface [B] body)"
  using assms unfolding satisfies_iff all_optional_iff field_of_interface_single
  by (fastforce split: option.splits)

lemma satisfies_keys: "satisfies E ob S \<Longrightarrow> (P, v) \<in> set ob \<Longrightarrow> P \<in> set (keyof S)"
  unfolding satisfies_iff using field_of_Some_keyof by fastforce

lemma fresh_iff: "fresh S names \<longleftrightarrow> (\<forall>P \<in> set names. field_of S P = None)"
  by (simp add: fresh_def list_all_iff field_of_None_iff)

lemma all_optional_BoxOwnProps:
  assumes "all_optional (SpaceProps E)" and "all_optional (ColorProps E)"
  shows "all_optional (BoxOwnProps E)"
  using assms unfolding all_optional_iff BoxOwnProps_def field_of_interface
    field_of_inherit_Cons field_of_inherit_Nil field_of_Cons field_of_Nil
  by (auto simp: opt_def split: option.splits if_splits)

lemma satisfies_supplied:
  "satisfies E ob S \<Longrightarrow> (P, v) \<in> set ob \<Longrightarrow> field_of S P = Some f \<Longrightarrow> has_ty E v (fty f)"
  unfolding satisfies_iff by fastforce

lemma satisfies_empty: "all_optional S \<Longrightarrow> satisfies E [] S"
  unfolding satisfies_iff all_optional_iff by simp

lemma inter_field_None_right: "inter_field a None = a"
  by (cases a) simp_all

lemma keyof_Omit: "keyof (Omit T K) = filter (\<lambda>P. P \<notin> set K) (keyof T)"
  by (simp add: Omit_def Pick_def keyof_mapped Exclude_def)

lemma Omit_cong_keys:
  assumes "\<And>P. P \<in> set (keyof T) \<Longrightarrow> P \<in> set K \<longleftrightarrow> P \<in> set K'"
  shows "Omit T K = Omit T K'"
proof -
  have "Exclude (keyof T) K = Exclude (keyof T) K'"
    unfolding Exclude_def using assms by (intro filter_cong) auto
  then show ?thesis by (simp add: Omit_def)
qed

lemma never_reduced_Omit: "never_reduced (Omit N K) U \<Longrightarrow> never_reduced N U"
  unfolding never_reduced_iff field_of_Omit by (metis option.distinct(1))

lemma not_reduced_Nil: "\<not> never_reduced T []"
  by (simp add: never_reduced_iff field_of_Nil)

lemma satisfies_Assign:
  assumes "satisfies E ob N" and "all_optional U" and "\<not> never_reduced N U"
  shows "satisfies E ob (Assign N U)"
  using assms(1,2) unfolding satisfies_iff all_optional_iff field_of_Assign [OF assms(3)]
  by (fastforce split: option.splits)

lemma all_optional_Assign:
  "all_optional N \<Longrightarrow> all_optional U \<Longrightarrow> all_optional (Assign N U)"
proof (cases "never_reduced N U")
  case True
  then show ?thesis by (simp add: Assign_reduced all_optional_def keyof_def)
next
  case False
  assume "all_optional N" "all_optional U"
  then show ?thesis
    unfolding all_optional_iff field_of_Assign [OF False] by (auto split: option.splits)
qed

lemma field_of_removed:
  assumes "P \<in> set K" and "\<not> never_reduced (Omit N K) U"
  shows "field_of (Assign (Omit N K) U) P = field_of U P"
  using assms(1) by (cases "field_of U P") (simp_all add: field_of_Assign [OF assms(2)] field_of_Omit)

lemma field_of_kept:
  assumes "P \<notin> set K" and "\<not> never_reduced N U"
  shows "field_of (Assign (Omit N K) U) P = field_of (Assign N U) P"
proof -
  from assms(2) never_reduced_Omit have "\<not> never_reduced (Omit N K) U" by blast
  with assms show ?thesis by (simp add: field_of_Assign field_of_Omit)
qed

section \<open>Soundness of the reduction to never\<close>

lemma has_ty_dnf:
  "has_ty E v t \<longleftrightarrow> (\<exists>c \<in> set (dnf t). \<forall>x \<in> set c. has_ty E v x)"
proof (induction t rule: dnf.induct)
  case (2 a b)
  have "has_ty E v (TUnion a b) \<longleftrightarrow> has_ty E v a \<or> has_ty E v b" by simp
  also have "\<dots> \<longleftrightarrow> (\<exists>c \<in> set (dnf a). \<forall>x \<in> set c. has_ty E v x) \<or>
      (\<exists>c \<in> set (dnf b). \<forall>x \<in> set c. has_ty E v x)"
    using 2 by blast
  also have "\<dots> \<longleftrightarrow> (\<exists>c \<in> set (dnf (TUnion a b)). \<forall>x \<in> set c. has_ty E v x)"
    by auto
  finally show ?case .
next
  case (3 a b)
  have "has_ty E v (TInter a b) \<longleftrightarrow> has_ty E v a \<and> has_ty E v b" by simp
  also have "\<dots> \<longleftrightarrow> (\<exists>c \<in> set (dnf a). \<forall>x \<in> set c. has_ty E v x) \<and>
      (\<exists>c \<in> set (dnf b). \<forall>x \<in> set c. has_ty E v x)"
    using 3 by blast
  also have "\<dots> \<longleftrightarrow> (\<exists>c \<in> set (dnf (TInter a b)). \<forall>x \<in> set c. has_ty E v x)"
    by (auto simp: ball_Un)
  finally show ?case .
qed simp_all

lemma kind_of_has_ty:
  "has_ty E v a \<Longrightarrow> kind_of a \<noteq> KOpen \<Longrightarrow>
     (case kind_of a of
        KString \<Rightarrow> (\<exists>s. v = VStr s)
      | KNumber \<Rightarrow> (\<exists>n. v = VNum n)
      | KBoolean \<Rightarrow> (\<exists>b. v = VBool b)
      | KUndefined \<Rightarrow> v = VUndefined
      | KNull \<Rightarrow> v = VNull
      | KObject \<Rightarrow> (\<exists>ob. v = VObj ob)
      | KOpen \<Rightarrow> True)"
  by (cases a; cases v) simp_all

lemma clash_sound:
  assumes "clash a b" and a: "has_ty E v a" and b: "has_ty E v b"
  shows False
proof -
  from assms(1) have op: "kind_of a \<noteq> KOpen" "kind_of b \<noteq> KOpen"
    by (auto simp: clash_def split: if_splits)
  note ka = kind_of_has_ty [OF a op(1)] and kb = kind_of_has_ty [OF b op(2)]
  show False
  proof (cases "kind_of a = kind_of b")
    case False
    with ka kb op assms(1) show False
      by (cases "kind_of a"; cases "kind_of b") (auto simp: clash_def)
  next
    case True
    with assms(1) op have "kind_of a \<noteq> KObject"
      by (auto simp: clash_def split: if_splits)
    with assms(1) True op obtain s t where "a = TLit s" "b = TLit t" "s \<noteq> t"
      by (auto simp: clash_def split: if_splits ty.splits)
    with a b show False by simp
  qed
qed

lemma empty_ty_sound: "empty_ty t \<Longrightarrow> \<not> has_ty E v t"
  unfolding has_ty_dnf [of E v t] empty_ty_def list_all_iff list_ex_iff
  using clash_sound by blast

lemma reduced_unsatisfiable:
  assumes red: "never_reduced T U"
    and wfT: "\<And>P f. field_of T P = Some f \<Longrightarrow> optional f \<Longrightarrow> has_ty E VUndefined (fty f)"
    and wfU: "\<And>P g. field_of U P = Some g \<Longrightarrow> optional g \<Longrightarrow> has_ty E VUndefined (fty g)"
  shows "\<not> satisfies E ob (Intersect_fields T U)"
proof
  assume sat: "satisfies E ob (Intersect_fields T U)"
  from red obtain P f g where f: "field_of T P = Some f" and g: "field_of U P = Some g"
    and e: "empty_ty (TInter (fty f) (fty g))"
    unfolding never_reduced_iff by blast
  let ?h = "Fld (TInter (fty f) (fty g)) (optional f \<and> optional g)"
  have h: "field_of (Intersect_fields T U) P = Some ?h"
    by (simp add: field_of_Intersect_fields f g)
  have "\<not> (optional f \<and> optional g)"
    using wfT [OF f] wfU [OF g] empty_ty_sound [OF e, of E VUndefined] by auto
  with sat h obtain v where "(P, v) \<in> set ob"
    unfolding satisfies_iff by fastforce
  from satisfies_supplied [OF sat this h] empty_ty_sound [OF e, of E v] show False by simp
qed

section \<open>Satisfaction of composed shapes\<close>

lemma satisfies_interface_fresh:
  assumes N: "satisfies E ob N" and B: "satisfies E ob B" and body: "all_optional body"
    and fr: "fresh N (keyof body)"
  shows "satisfies E ob (interface [B] body)"
proof (rule satisfies_interface [OF B body])
  show "\<forall>(P, v) \<in> set ob. \<forall>g. field_of body P = Some g \<longrightarrow> has_ty E v (fty g)"
  proof (clarify)
    fix P v g
    assume "(P, v) \<in> set ob" and g: "field_of body P = Some g"
    then have "P \<in> set (keyof N)" using satisfies_keys [OF N] by blast
    moreover from fr field_of_Some_keyof [OF g] have "field_of N P = None"
      by (simp add: fresh_iff)
    ultimately show "has_ty E v (fty g)" by (simp add: field_of_None_iff)
  qed
qed

lemma all_optional_opts:
  "all_optional []"
  "all_optional [(a, opt ta)]"
  "all_optional [(a, opt ta), (b, opt tb)]"
  "all_optional [(a, opt ta), (b, opt tb), (c, opt tc), (d, opt td)]"
  "all_optional [(a, opt ta), (b, opt tb), (c, opt tc), (d, opt td), (e, opt te), (g, opt tg)]"
  unfolding all_optional_iff field_of_Cons field_of_Nil
  by (auto simp: opt_def split: if_splits)

lemma DonutProps_value: "field_of (DonutProps E) ''value'' = Some (req TNumber)"
  by (simp add: DonutProps_def field_of_interface_single field_of_Cons)

lemma field_of_BoxOwnProps_body:
  "field_of (BoxOwnProps E) ''css'' = Some (opt (Interpolation TAny))"
  "field_of (BoxOwnProps E) ''sx'' = Some (opt ThemeUIStyleObject)"
  "field_of (BoxOwnProps E) ''as'' = Some (opt React_ElementType)"
  "field_of (BoxOwnProps E) ''variant'' = Some (opt TString)"
  by (simp_all add: BoxOwnProps_def field_of_interface field_of_Cons)

lemma inhabits_sample: "inhabits sample_env = sample_inhabits"
  by (simp add: sample_env_def)

lemma field_of_FieldOwnProps:
  "field_of (FieldOwnProps E) P =
     (if P = ''label'' \<or> P = ''name'' then Some (req TString) else field_of (MarginProps E) P)"
  unfolding FieldOwnProps_def field_of_interface_single field_of_Cons field_of_Nil
  by simp

lemma field_of_IconButtonProps_size:
  "field_of (IconButtonProps E) ''size'' = Some (opt (TUnion TNumber TString))"
  by (simp add: IconButtonProps_def field_of_interface_single field_of_Cons)

lemma env_ok_own: "env_ok E \<Longrightarrow> all_optional (BoxOwnProps E)"
  by (simp add: env_ok_def own_optional_def all_optional_BoxOwnProps)

lemma env_ok_not_reduced:
  "env_ok E \<Longrightarrow> N \<in> set (hosts E) \<Longrightarrow> \<not> never_reduced N (BoxOwnProps E)"
  by (simp add: env_ok_def hosts_not_reduced_def list_all_iff)

lemma satisfies_composed:
  assumes "satisfies E ob N" and "all_optional (BoxOwnProps E)"
    and "\<not> never_reduced N (BoxOwnProps E)"
  shows "satisfies E ob (interface [Assign N (BoxOwnProps E)] [])"
  using satisfies_Assign [OF assms]
  by (simp add: satisfies_iff field_of_interface_empty)

lemma satisfies_Embed:
  assumes ok: "env_ok E" and N: "satisfies E ob (ComponentPropsWithRef E (TLit ''iframe''))"
  shows "satisfies E ob (EmbedProps E)"
  unfolding EmbedProps_def
proof (rule satisfies_interface [OF satisfies_Assign [OF N env_ok_own [OF ok]] all_optional_opts(5)])
  let ?N = "ComponentPropsWithRef E (TLit ''iframe'')"
  let ?I = "IframeHTMLAttributes E TAny"
  let ?body = "[(''variant'', opt TString), (''ratio'', opt TNumber),
      (''src'', opt (index ?I ''src'')), (''frameBorder'', opt (index ?I ''frameBorder'')),
      (''allowFullScreen'', opt (index ?I ''allowFullScreen'')),
      (''allow'', opt (index ?I ''allow''))]"
  show "\<not> never_reduced ?N (BoxOwnProps E)"
    by (rule env_ok_not_reduced [OF ok]) (simp add: hosts_def)
  from ok have fr: "field_of ?N ''variant'' = None" "field_of ?N ''ratio'' = None"
    by (simp_all add: env_ok_def body_names_fresh_def fresh_iff)
  from ok have same: "P \<in> {''src'', ''frameBorder'', ''allowFullScreen'', ''allow''} \<Longrightarrow>
      field_of ?N P = field_of ?I P" for P
    by (auto simp: env_ok_def embed_attributes_native_def same_fields_def)
  show "\<forall>(P, v) \<in> set ob. \<forall>g. field_of ?body P = Some g \<longrightarrow> has_ty E v (fty g)"
  proof (clarify)
    fix P v g
    assume pv: "(P, v) \<in> set ob" and g: "field_of ?body P = Some g"
    from N pv obtain f where f: "field_of ?N P = Some f" "has_ty E v (fty f)"
      unfolding satisfies_iff by blast
    from g f(1) fr have P: "P \<in> {''src'', ''frameBorder'', ''allowFullScreen'', ''allow''}"
      by (auto simp: field_of_Cons field_of_Nil split: if_splits)
    with same f(1) have "index ?I P = fty f" by (simp add: index_def)
    with P g f(2) show "has_ty E v (fty g)"
      by (auto simp: field_of_Cons field_of_Nil opt_def split: if_splits)
  qed
qed

lemma satisfies_Spinner:
  assumes ok: "env_ok E" and N: "satisfies E ob (ComponentPropsWithRef E (TLit ''svg''))"
  shows "satisfies E ob (SpinnerProps E)"
proof -
  let ?N = "ComponentPropsWithRef E (TLit ''svg'')"
  let ?K = "[''opacity'', ''color'', ''css'', ''sx'']"
  let ?U = "BoxOwnProps E"
  note own = env_ok_own [OF ok]
  have nr: "\<not> never_reduced ?N ?U"
    by (rule env_ok_not_reduced [OF ok]) (simp add: hosts_def)
  then have nrO: "\<not> never_reduced (Omit ?N ?K) ?U"
    using never_reduced_Omit by blast
  from ok have adm: "admits E ?N ?U ?K"
    by (simp add: env_ok_def spinner_admits_native_def)
  from ok have fr: "field_of ?N ''size'' = None"
    by (simp add: env_ok_def body_names_fresh_def fresh_iff)
  have A: "satisfies E ob (Assign (Omit ?N ?K) ?U)"
    unfolding satisfies_iff
  proof (intro conjI allI impI)
    show "\<forall>(P, v) \<in> set ob. \<exists>f. field_of (Assign (Omit ?N ?K) ?U) P = Some f \<and>
        has_ty E v (fty f)"
    proof (clarify)
      fix P v
      assume pv: "(P, v) \<in> set ob"
      from N pv obtain f where f: "field_of ?N P = Some f" "has_ty E v (fty f)"
        unfolding satisfies_iff by blast
      show "\<exists>h. field_of (Assign (Omit ?N ?K) ?U) P = Some h \<and> has_ty E v (fty h)"
      proof (cases "P \<in> set ?K")
        case True
        with adm f obtain g where "field_of ?U P = Some g" "has_ty E v (fty g)"
          unfolding admits_def list_all_iff by (fastforce split: option.splits)
        with True show ?thesis by (simp add: field_of_removed [OF True nrO])
      next
        case False
        with f show ?thesis
          by (auto simp: field_of_kept [OF False nr] field_of_Assign [OF nr]
              split: option.splits)
      qed
    qed
  next
    fix P h
    assume h: "field_of (Assign (Omit ?N ?K) ?U) P = Some h"
    show "optional h \<or> P \<in> fst ` set ob"
    proof (cases "P \<in> set ?K")
      case True
      with h own show ?thesis
        unfolding all_optional_iff by (simp add: field_of_removed [OF True nrO])
    next
      case False
      with h own N show ?thesis
        unfolding all_optional_iff satisfies_iff field_of_kept [OF False nr]
          field_of_Assign [OF nr]
        by (fastforce split: option.splits)
    qed
  qed
  show ?thesis
    unfolding SpinnerProps_def
  proof (rule satisfies_interface_fresh [OF N A all_optional_opts(2)])
    show "fresh ?N (keyof [(''size'', opt (TUnion TNumber TString))])"
      using fr by (simp add: fresh_iff keyof_def)
  qed
qed

section \<open>The sample declarations\<close>

lemmas sample_defs = sample_env_def dom_attributes_def iframe_attributes_def form_value_def
  sample_MarginProps_def sample_PaddingProps_def sample_SpaceProps_def sample_ColorProps_def

lemma BoxOwnProps_sample:
  "BoxOwnProps sample_env =
     [(''as'', opt React_ElementType), (''variant'', opt TString),
      (''css'', opt (Interpolation TAny)), (''sx'', opt ThemeUIStyleObject)] @
     sample_SpaceProps @ sample_ColorProps"
  by (simp add: BoxOwnProps_def interface_def keyof_def sample_defs)

lemma own_optional_sample: "own_optional sample_env"
  by (simp add: own_optional_def all_optional_def sample_defs keyof_def is_optional_def
      field_of_def opt_def)

lemma body_names_fresh_sample: "body_names_fresh sample_env"
  by (simp add: body_names_fresh_def fresh_def sample_defs keyof_def)

lemma embed_attributes_native_sample: "embed_attributes_native sample_env"
  by (simp add: embed_attributes_native_def same_fields_def sample_defs field_of_def)

lemma spinner_admits_native_sample: "spinner_admits_native sample_env"
  unfolding spinner_admits_native_def admits_def BoxOwnProps_sample
  by (auto simp: sample_defs field_of_def opt_def sample_inhabits_def split: val.splits)

lemma not_reduced_if:
  assumes U: "list_all (\<lambda>(k, g). \<not> literal_ty (fty g)) U"
    and N: "list_all (\<lambda>(k, f). if literal_ty (fty f) then k \<notin> set (keyof U) else True) N"
  shows "\<not> never_reduced N U"
proof
  assume "never_reduced N U"
  then obtain P f g where f: "field_of N P = Some f" and g: "field_of U P = Some g"
    and l: "literal_ty (fty f) \<or> literal_ty (fty g)"
    unfolding never_reduced_iff by blast
  from f have "(P, f) \<in> set N" by (simp add: field_of_def map_of_SomeD)
  with N have "literal_ty (fty f) \<Longrightarrow> P \<notin> set (keyof U)"
    unfolding list_all_iff by fastforce
  moreover from g have "(P, g) \<in> set U" by (simp add: field_of_def map_of_SomeD)
  with U have "\<not> literal_ty (fty g)" unfolding list_all_iff by fastforce
  ultimately show False using l field_of_Some_keyof [OF g] by blast
qed

lemma own_not_literal_sample:
  "list_all (\<lambda>(k, g). \<not> literal_ty (fty g)) (BoxOwnProps sample_env)"
  unfolding BoxOwnProps_sample
  by (simp add: sample_defs opt_def React_ElementType_def Interpolation_def
      ThemeUIStyleObject_def sample_margin_def)

lemma hosts_not_reduced_sample: "hosts_not_reduced sample_env"
  unfolding hosts_not_reduced_def hosts_def list_all_iff
proof
  fix N
  assume "N \<in> set (map (\<lambda>tag. ComponentPropsWithRef sample_env (TLit tag))
       [''div'', ''button'', ''a'', ''p'', ''h2'', ''img'', ''label'', ''input'', ''select'',
        ''textarea'', ''progress'', ''svg'', ''iframe''] @
     [ComponentProps sample_env (TLit ''input'')])"
  then have "list_all (\<lambda>(k, f). if literal_ty (fty f)
      then k \<notin> set (keyof (BoxOwnProps sample_env)) else True) N"
    unfolding BoxOwnProps_sample
    by (auto simp: sample_defs opt_def keyof_def)
  with own_not_literal_sample show "\<not> never_reduced N (BoxOwnProps sample_env)"
    by (rule not_reduced_if)
qed

lemma env_ok_sample: "env_ok sample_env"
  by (simp add: env_ok_def own_optional_sample body_names_fresh_sample
      embed_attributes_native_sample spinner_admits_native_sample hosts_not_reduced_sample)

section \<open>Fields of the declared shapes\<close>

lemma field_of_FieldProps:
  "field_of (FieldProps E T) P =
     (if P = ''label'' \<or> P = ''name'' then Some (req TString)
      else if P = ''as'' then inter_field (field_of (MarginProps E) ''as'') (Some (opt T))
      else if P \<in> set (keyof (MarginProps E)) then field_of (MarginProps E) P
      else field_of (ComponentPropsWithRef E T) P)"
proof -
  have k: "P \<in> set (keyof (FieldOwnProps E)) \<longleftrightarrow>
      P = ''label'' \<or> P = ''name'' \<or> P \<in> set (keyof (MarginProps E))"
    using field_of_None_iff [of "FieldOwnProps E" P] field_of_None_iff [of "MarginProps E" P]
    by (auto simp: field_of_FieldOwnProps req_def split: if_splits)
  have m: "P \<notin> set (keyof (MarginProps E)) \<Longrightarrow> field_of (MarginProps E) P = None"
    by (simp add: field_of_None_iff)
  show ?thesis
    unfolding FieldProps_def field_of_Intersect_fields field_of_Omit field_of_Cons field_of_Nil
    using k m
    by (auto simp: field_of_FieldOwnProps inter_field_None_right)
qed

lemma field_of_DonutProps:
  assumes "\<not> never_reduced (ComponentPropsWithRef E (TLit ''svg'')) (BoxOwnProps E)"
  shows "field_of (DonutProps E) P =
     (if P = ''value'' then Some (req TNumber)
      else if P = ''min'' \<or> P = ''max'' then Some (opt TNumber)
      else if P = ''title'' then Some (opt TString)
      else if P = ''size'' then Some (opt (TUnion TString TNumber))
      else if P \<in> set [''opacity'', ''color'', ''css'', ''sx'']
      then field_of (BoxOwnProps E) P
      else field_of (Assign (ComponentPropsWithRef E (TLit ''svg'')) (BoxOwnProps E)) P)"
proof -
  from assms never_reduced_Omit
  have "\<not> never_reduced (Omit (ComponentPropsWithRef E (TLit ''svg''))
      [''opacity'', ''color'', ''css'', ''sx'', ''max'', ''min'']) (BoxOwnProps E)"
    by blast
  then show ?thesis
    unfolding DonutProps_def field_of_interface_single field_of_Cons field_of_Nil
    by (simp add: field_of_removed field_of_kept [OF _ assms])
qed

lemma field_of_DonutProps_body:
  "field_of (DonutProps E) ''min'' = Some (opt TNumber)"
  "field_of (DonutProps E) ''max'' = Some (opt TNumber)"
  by (simp_all add: DonutProps_def field_of_interface_single field_of_Cons)

lemma field_of_SpinnerProps:
  assumes "\<not> never_reduced (ComponentPropsWithRef E (TLit ''svg'')) (BoxOwnProps E)"
  shows "field_of (SpinnerProps E) P =
     (if P = ''size'' then Some (opt (TUnion TNumber TString))
      else if P \<in> set [''opacity'', ''color'', ''css'', ''sx'']
      then field_of (BoxOwnProps E) P
      else field_of (Assign (ComponentPropsWithRef E (TLit ''svg'')) (BoxOwnProps E)) P)"
proof -
  from assms never_reduced_Omit
  have "\<not> never_reduced (Omit (ComponentPropsWithRef E (TLit ''svg''))
      [''opacity'', ''color'', ''css'', ''sx'']) (BoxOwnProps E)"
    by blast
  then show ?thesis
    unfolding SpinnerProps_def field_of_interface_single field_of_Cons field_of_Nil
    by (simp add: field_of_removed field_of_kept [OF _ assms])
qed

lemma spec_wording_same:
  assumes "''css'' \<notin> set (keyof (ComponentPropsWithRef E (TLit ''svg'')))"
    and "''sx'' \<notin> set (keyof (ComponentPropsWithRef E (TLit ''svg'')))"
  shows "DonutProps E = DonutProps_spec E" and "SpinnerProps E = SpinnerProps_spec E"
proof -
  let ?N = "ComponentPropsWithRef E (TLit ''svg'')"
  have "Omit ?N [''opacity'', ''color'', ''css'', ''sx'', ''max'', ''min''] =
      Omit ?N [''opacity'', ''color'', ''min'', ''max'']"
    using assms by (intro Omit_cong_keys) auto
  then show "DonutProps E = DonutProps_spec E"
    by (simp add: DonutProps_def DonutProps_spec_def)
  have "Omit ?N [''opacity'', ''color'', ''css'', ''sx''] = Omit ?N [''opacity'', ''color'']"
    using assms by (intro Omit_cong_keys) auto
  then show "SpinnerProps E = SpinnerProps_spec E"
    by (simp add: SpinnerProps_def SpinnerProps_spec_def)
qed

lemma field_of_CloseProps:
  "field_of (CloseProps E) P =
     (if P = ''children'' then None else field_of (IconButtonProps E) P)"
  by (simp add: CloseProps_def field_of_interface_empty field_of_Omit)

lemma field_of_component_props:
  "field_of (component_props P) k =
     (case field_of P k of
        None \<Rightarrow> None
      | Some f \<Rightarrow>
          Some (if k = ''ref''
                then Fld (TUnion (TUnion (TExt ''React.Ref'' [TExt ''React.Component'' [TObject P]])
                                    TUndefined) (fty f)) True
                else f))"
proof -
  have "map_of (map (\<lambda>(k, f). if k = ''ref'' then (k, Fld (TUnion X (fty f)) True) else (k, f)) Q) k =
      (case map_of Q k of None \<Rightarrow> None
       | Some f \<Rightarrow> Some (if k = ''ref'' then Fld (TUnion X (fty f)) True else f))" for X Q
    by (induction Q) auto
  then show ?thesis by (simp add: component_props_def field_of_def)
qed

lemma all_optional_component_props: "all_optional P \<Longrightarrow> all_optional (component_props P)"
  unfolding all_optional_iff field_of_component_props by (auto split: option.splits if_splits)

lemma CPWR_sample_component:
  "ComponentPropsWithRef sample_env (React_ComponentType Q) = component_props Q"
  by (simp add: sample_env_def React_ComponentType_def)

lemma all_optional_sample_host:
  "all_optional (ComponentPropsWithRef sample_env (TLit ''svg''))"
  "all_optional (ComponentPropsWithRef sample_env (TLit ''input''))"
  "all_optional (ComponentPropsWithRef sample_env (TLit ''button''))"
  by (simp_all add: all_optional_def sample_defs keyof_def is_optional_def field_of_def opt_def)

lemma not_reduced_sample_host:
  "\<not> never_reduced (ComponentPropsWithRef sample_env (TLit ''svg'')) (BoxOwnProps sample_env)"
  "\<not> never_reduced (ComponentPropsWithRef sample_env (TLit ''input'')) (BoxOwnProps sample_env)"
  "\<not> never_reduced (ComponentPropsWithRef sample_env (TLit ''button'')) (BoxOwnProps sample_env)"
  by (rule env_ok_not_reduced [OF env_ok_sample], simp add: hosts_def)+

lemma all_optional_InputProps_sample: "all_optional (InputProps sample_env)"
  unfolding all_optional_iff InputProps_def field_of_interface_empty
  using all_optional_Assign [OF all_optional_sample_host(2) env_ok_own [OF env_ok_sample]]
  unfolding all_optional_iff by blast

lemma field_of_sample_own_color:
  "field_of (BoxOwnProps sample_env) ''color'' =
     Some (opt (TExt ''ResponsiveValue'' [TExt ''Property.Color'' []]))"
  unfolding BoxOwnProps_sample by (simp add: sample_defs field_of_def)

lemma field_of_sample_button_children:
  "field_of (ComponentPropsWithRef sample_env (TLit ''button'')) ''children'' =
     Some (opt (TExt ''React.ReactNode'' []))"
  "field_of (BoxOwnProps sample_env) ''children'' = None"
  "field_of (ComponentPropsWithRef sample_env (TLit ''button'')) ''disabled'' =
     Some (opt TBoolean)"
  "field_of (BoxOwnProps sample_env) ''disabled'' = None"
  unfolding BoxOwnProps_sample by (simp_all add: sample_defs field_of_def)

lemma field_of_IconButtonProps_sample:
  "field_of (IconButtonProps sample_env) ''children'' = Some (opt (TExt ''React.ReactNode'' []))"
  "field_of (IconButtonProps sample_env) ''disabled'' = Some (opt TBoolean)"
  unfolding IconButtonProps_def field_of_interface_single
    field_of_Assign [OF not_reduced_sample_host(3)] field_of_sample_button_children
  by (simp_all add: field_of_Cons field_of_Nil opt_def)

lemma keyof_sample_MarginProps:
  "keyof (MarginProps sample_env) =
     [''m'', ''margin'', ''mt'', ''marginTop'', ''mr'', ''marginRight'', ''mb'',
      ''marginBottom'', ''ml'', ''marginLeft'', ''mx'', ''marginX'', ''my'', ''marginY'']"
  by (simp add: sample_defs keyof_def)

lemma all_optional_sample_MarginProps: "all_optional (MarginProps sample_env)"
  by (simp add: all_optional_def sample_defs keyof_def is_optional_def field_of_def opt_def)

lemma field_of_sample_mb: "field_of (MarginProps sample_env) ''mb'' = Some (opt sample_margin)"
  by (simp add: sample_defs field_of_def)

lemma field_of_InputProps:
  "field_of (InputProps E) P =
     field_of (Assign (ComponentPropsWithRef E (TLit ''input'')) (BoxOwnProps E)) P"
  by (simp add: InputProps_def field_of_interface_empty)

lemma sample_input_fields:
  "field_of (ComponentPropsWithRef sample_env (TLit ''input'')) ''ref'' =
     Some (opt (TExt ''React.Ref'' [TLit ''input'']))"
  "field_of (BoxOwnProps sample_env) ''ref'' = None"
  "field_of (ComponentPropsWithRef sample_env (TLit ''input'')) ''checked'' = Some (opt TBoolean)"
  "field_of (BoxOwnProps sample_env) ''checked'' = None"
  unfolding BoxOwnProps_sample by (simp_all add: sample_defs field_of_def)

lemma field_of_InputProps_sample:
  "field_of (InputProps sample_env) ''ref'' = Some (opt (TExt ''React.Ref'' [TLit ''input'']))"
  "field_of (InputProps sample_env) ''checked'' = Some (opt TBoolean)"
  unfolding field_of_InputProps field_of_Assign [OF not_reduced_sample_host(2)]
    sample_input_fields
  by (simp_all add: opt_def)

lemma sample_input_margins:
  "list_all (\<lambda>P. field_of (ComponentPropsWithRef sample_env (TLit ''input'')) P = None \<and>
                 field_of (BoxOwnProps sample_env) P = field_of (MarginProps sample_env) P)
     [''m'', ''margin'', ''mt'', ''marginTop'', ''mr'', ''marginRight'', ''mb'',
      ''marginBottom'', ''ml'', ''marginLeft'', ''mx'', ''marginX'', ''my'', ''marginY'']"
  unfolding BoxOwnProps_sample by (simp add: sample_defs field_of_def)

lemma same_fields_sample_default:
  "same_fields (ComponentPropsWithRef sample_env (React_ComponentType (InputProps sample_env)))
     (MarginProps sample_env) (keyof (MarginProps sample_env))"
proof -
  have "field_of (component_props (InputProps sample_env)) P = field_of (MarginProps sample_env) P"
    if "P \<in> set (keyof (MarginProps sample_env))" for P
  proof -
    from that sample_input_margins
    have n: "field_of (ComponentPropsWithRef sample_env (TLit ''input'')) P = None"
      and u: "field_of (BoxOwnProps sample_env) P = field_of (MarginProps sample_env) P"
      unfolding keyof_sample_MarginProps list_all_iff by blast+
    from that have r: "P \<noteq> ''ref''" unfolding keyof_sample_MarginProps by auto
    show ?thesis
      unfolding field_of_component_props field_of_InputProps
        field_of_Assign [OF not_reduced_sample_host(2)] n u
      using r by (simp split: option.splits)
  qed
  then show ?thesis
    unfolding same_fields_def CPWR_sample_component list_all_iff by blast
qed

section \<open>The composition rule\<close>




section \<open>Native props are valid props\<close>

text \<open>
  C2, as amended. For every exported component other than \<open>Field\<close>, \<open>Donut\<close> and
  \<open>Close\<close>, props that typecheck against the attribute set of the component's native
  host typecheck against the component's declared props shape, provided the other
  packages' declarations are as \<open>env_ok\<close> says:
  \<^item> the fields of \<^verbatim>\<open>SpaceProps\<close> and \<^verbatim>\<open>ColorProps\<close> are optional;
  \<^item> the names that an interface body adds (\<^verbatim>\<open>width\<close>, \<^verbatim>\<open>columns\<close>, \<^verbatim>\<open>gap\<close>,
    \<^verbatim>\<open>repeat\<close> and \<^verbatim>\<open>ratio\<close> to \<^verbatim>\<open>div\<close>, \<^verbatim>\<open>arrow\<close> to \<^verbatim>\<open>select\<close>, \<^verbatim>\<open>size\<close> and
    \<^verbatim>\<open>ratio\<close> to \<^verbatim>\<open>img\<close>, \<^verbatim>\<open>size\<close> to \<^verbatim>\<open>button\<close> and to \<^verbatim>\<open>svg\<close>, \<^verbatim>\<open>label\<close> to
    \<^verbatim>\<open>input\<close>, \<^verbatim>\<open>variant\<close> and \<^verbatim>\<open>ratio\<close> to \<^verbatim>\<open>iframe\<close>) are not native attribute names
    of that host;
  \<^item> \<^verbatim>\<open>src\<close>, \<^verbatim>\<open>frameBorder\<close>, \<^verbatim>\<open>allowFullScreen\<close> and \<^verbatim>\<open>allow\<close>, which \<^verbatim>\<open>EmbedProps\<close>
    declares again by indexing \<^verbatim>\<open>React.IframeHTMLAttributes<any>\<close>, are declared there
    as among the attributes of \<^verbatim>\<open>iframe\<close>;
  \<^item> at \<^verbatim>\<open>opacity\<close>, \<^verbatim>\<open>color\<close>, \<^verbatim>\<open>css\<close> and \<^verbatim>\<open>sx\<close>, which \<^verbatim>\<open>SpinnerProps\<close> removes from
    the attributes of \<^verbatim>\<open>svg\<close>, the own props accept every value that an attribute of
    \<^verbatim>\<open>svg\<close> of that name accepts;
  \<^item> the compiler does not reduce the intersection of a host's attributes with the own
    props to \<^verbatim>\<open>never\<close>.
\<close>

theorem native_wins:
  assumes ok: "env_ok E" and reg: "(c, N, S) \<in> set (registry E)"
    and c: "c \<notin> set overriding" and sat: "satisfies E ob N"
  shows "satisfies E ob S"
proof -
  note own = env_ok_own [OF ok]
  from reg c have "N \<in> set (hosts E)"
    by (auto simp: registry_def overriding_def hosts_def)
  note nr = env_ok_not_reduced [OF ok this]
  note fresh = ok [unfolded env_ok_def body_names_fresh_def]
  have comp: "satisfies E ob (interface [Assign N (BoxOwnProps E)] [])"
    by (rule satisfies_composed [OF sat own nr])
  have ext: "satisfies E ob (interface [interface [Assign N (BoxOwnProps E)] []] body)"
    if "all_optional body" "fresh N (keyof body)" for body
    by (rule satisfies_interface_fresh [OF sat comp that])
  have ext1: "satisfies E ob (interface [Assign N (BoxOwnProps E)] body)"
    if "all_optional body" "fresh N (keyof body)" for body
    by (rule satisfies_interface_fresh [OF sat satisfies_Assign [OF sat own nr] that])
  from reg c consider
      (plain) "S = interface [Assign N (BoxOwnProps E)] []"
    | (grid) "c = Grid" | (select) "c = Select" | (avatar) "c = Avatar"
    | (embed) "c = Embed" | (ratio) "c = AspectRatio" | (image) "c = AspectImage"
    | (icon) "c = IconButton \<or> c = MenuButton" | (switch) "c = Switch"
    | (spinner) "c = Spinner"
    by (auto simp: registry_def overriding_def BoxProps_def FlexProps_def ButtonProps_def
        LinkProps_def ParagraphProps_def HeadingProps_def ImageProps_def CardProps_def
        LabelProps_def InputProps_def TextareaProps_def RadioProps_def CheckboxProps_def
        SliderProps_def ProgressProps_def BadgeProps_def AlertProps_def DividerProps_def
        ContainerProps_def NavLinkProps_def MessageProps_def)
  then show ?thesis
  proof cases
    case plain
    with comp show ?thesis by simp
  next
    case grid
    with reg have N: "N = ComponentPropsWithRef E (TLit ''div'')" and S: "S = GridProps E"
      by (auto simp: registry_def)
    from fresh have "fresh N [''width'', ''columns'', ''gap'', ''repeat'']"
      by (simp add: N fresh_def)
    then show ?thesis
      unfolding S GridProps_def BoxProps_def N [symmetric]
      by (intro ext all_optional_opts) (simp add: keyof_def)
  next
    case select
    with reg have N: "N = ComponentPropsWithRef E (TLit ''select'')" and S: "S = SelectProps E"
      by (auto simp: registry_def)
    from fresh have "fresh N [''arrow'']"
      by (simp add: N fresh_def)
    then show ?thesis
      unfolding S SelectProps_def N [symmetric]
      by (intro ext1 all_optional_opts) (simp add: keyof_def)
  next
    case avatar
    with reg have N: "N = ComponentPropsWithRef E (TLit ''img'')" and S: "S = AvatarProps E"
      by (auto simp: registry_def)
    from fresh have "fresh N [''size'']"
      by (simp add: N fresh_def)
    then show ?thesis
      unfolding S AvatarProps_def ImageProps_def N [symmetric]
      by (intro ext all_optional_opts) (simp add: keyof_def)
  next
    case embed
    with reg have N: "N = ComponentPropsWithRef E (TLit ''iframe'')" and S: "S = EmbedProps E"
      by (auto simp: registry_def)
    from satisfies_Embed [OF ok] sat show ?thesis by (simp add: N S)
  next
    case ratio
    with reg have N: "N = ComponentPropsWithRef E (TLit ''div'')"
      and S: "S = AspectRatioProps E"
      by (auto simp: registry_def)
    from fresh have "fresh N [''ratio'']"
      by (simp add: N fresh_def)
    then show ?thesis
      unfolding S AspectRatioProps_def BoxProps_def N [symmetric]
      by (intro ext all_optional_opts) (simp add: keyof_def)
  next
    case image
    with reg have N: "N = ComponentPropsWithRef E (TLit ''img'')"
      and S: "S = AspectImageProps E"
      by (auto simp: registry_def)
    from fresh have "fresh N [''ratio'']"
      by (simp add: N fresh_def)
    then show ?thesis
      unfolding S AspectImageProps_def ImageProps_def N [symmetric]
      by (intro ext all_optional_opts) (simp add: keyof_def)
  next
    case icon
    with reg have N: "N = ComponentPropsWithRef E (TLit ''button'')"
      and S: "S = IconButtonProps E"
      by (auto simp: registry_def MenuButtonProps_def)
    from fresh have "fresh N [''size'']"
      by (simp add: N fresh_def)
    then show ?thesis
      unfolding S IconButtonProps_def N [symmetric]
      by (intro ext1 all_optional_opts) (simp add: keyof_def)
  next
    case switch
    with reg have N: "N = ComponentProps E (TLit ''input'')" and S: "S = SwitchProps E"
      by (auto simp: registry_def)
    from fresh have "fresh N [''label'']"
      by (simp add: N fresh_def)
    then show ?thesis
      unfolding S SwitchProps_def N [symmetric]
      by (intro ext1 all_optional_opts) (simp add: keyof_def)
  next
    case spinner
    with reg have N: "N = ComponentPropsWithRef E (TLit ''svg'')" and S: "S = SpinnerProps E"
      by (auto simp: registry_def)
    from satisfies_Spinner [OF ok] sat show ?thesis by (simp add: N S)
  qed
qed

theorem native_wins_witness:
  "env_ok sample_env \<and>
   satisfies sample_env [(''id'', VStr ''main''), (''color'', VStr ''red'')]
     (ComponentPropsWithRef sample_env (TLit ''div'')) \<and>
   satisfies sample_env [(''id'', VStr ''main''), (''color'', VStr ''red'')]
     (BoxProps sample_env) \<and>
   satisfies sample_env [(''color'', VStr ''red''), (''opacity'', VNum 1)]
     (ComponentPropsWithRef sample_env (TLit ''svg'')) \<and>
   satisfies sample_env [(''color'', VStr ''red''), (''opacity'', VNum 1)]
     (SpinnerProps sample_env)"
proof -
  let ?ob = "[(''id'', VStr ''main''), (''color'', VStr ''red'')]"
  let ?N = "ComponentPropsWithRef sample_env (TLit ''div'')"
  let ?ob' = "[(''color'', VStr ''red''), (''opacity'', VNum 1)]"
  let ?N' = "ComponentPropsWithRef sample_env (TLit ''svg'')"
  have reg: "(Box, ?N, BoxProps sample_env) \<in> set (registry sample_env)"
    "(Spinner, ?N', SpinnerProps sample_env) \<in> set (registry sample_env)"
    by (simp_all add: registry_def)
  have c: "Box \<notin> set overriding" "Spinner \<notin> set overriding"
    by (simp_all add: overriding_def)
  have sat: "satisfies sample_env ?ob ?N"
    by (simp add: satisfies_def sample_defs keyof_def is_optional_def field_of_def opt_def)
  have sat': "satisfies sample_env ?ob' ?N'"
    by (simp add: satisfies_def sample_defs keyof_def is_optional_def field_of_def opt_def)
  from native_wins [OF env_ok_sample reg(1) c(1) sat]
    native_wins [OF env_ok_sample reg(2) c(2) sat'] env_ok_sample sat sat'
  show ?thesis by simp
qed

text \<open>
  The claim as stated fails at each of the three components left out. The empty props
  satisfy the attribute set of \<^verbatim>\<open>svg\<close>, all of whose attributes are optional, and not
  \<^verbatim>\<open>DonutProps\<close>, which requires \<^verbatim>\<open>value\<close>. Props with \<^verbatim>\<open>children\<close> satisfy the
  attribute set of \<^verbatim>\<open>button\<close> and not \<^verbatim>\<open>CloseProps\<close>, which has no \<^verbatim>\<open>children\<close>. The
  empty props satisfy the props of the default component of \<open>Field\<close> and not the props
  of \<open>Field\<close>, which require \<^verbatim>\<open>label\<close> and \<^verbatim>\<open>name\<close>.
\<close>

theorem native_wins_counterexample:
  "(Donut, ComponentPropsWithRef sample_env (TLit ''svg''), DonutProps sample_env)
     \<in> set (registry sample_env) \<and>
   satisfies sample_env [] (ComponentPropsWithRef sample_env (TLit ''svg'')) \<and>
   \<not> satisfies sample_env [] (DonutProps sample_env) \<and>
   (Close, ComponentPropsWithRef sample_env (TLit ''button''), CloseProps sample_env)
     \<in> set (registry sample_env) \<and>
   satisfies sample_env [(''children'', VStr ''x'')]
     (ComponentPropsWithRef sample_env (TLit ''button'')) \<and>
   \<not> satisfies sample_env [(''children'', VStr ''x'')] (CloseProps sample_env) \<and>
   (Field, ComponentPropsWithRef sample_env (React_ComponentType (InputProps sample_env)),
      Field_props sample_env None) \<in> set (registry sample_env) \<and>
   satisfies sample_env []
     (ComponentPropsWithRef sample_env (React_ComponentType (InputProps sample_env))) \<and>
   \<not> satisfies sample_env [] (Field_props sample_env None)"
proof -
  have d1: "satisfies sample_env [] (ComponentPropsWithRef sample_env (TLit ''svg''))"
    by (rule satisfies_empty [OF all_optional_sample_host(1)])
  have d2: "\<not> satisfies sample_env [] (DonutProps sample_env)"
  proof
    assume "satisfies sample_env [] (DonutProps sample_env)"
    then have "optional (req TNumber)"
      using DonutProps_value [of sample_env] unfolding satisfies_iff by fastforce
    then show False by (simp add: req_def)
  qed
  have c1: "satisfies sample_env [(''children'', VStr ''x'')]
      (ComponentPropsWithRef sample_env (TLit ''button''))"
    using all_optional_sample_host(3)
    unfolding satisfies_iff all_optional_iff
    by (simp add: field_of_sample_button_children opt_def inhabits_sample sample_inhabits_def)
  have c2: "\<not> satisfies sample_env [(''children'', VStr ''x'')] (CloseProps sample_env)"
  proof
    assume "satisfies sample_env [(''children'', VStr ''x'')] (CloseProps sample_env)"
    from satisfies_keys [OF this, of "''children''" "VStr ''x''"] show False
      using field_of_CloseProps [of sample_env "''children''"]
      by (simp add: field_of_None_iff)
  qed
  have f1: "satisfies sample_env []
      (ComponentPropsWithRef sample_env (React_ComponentType (InputProps sample_env)))"
    unfolding CPWR_sample_component
    by (rule satisfies_empty [OF all_optional_component_props [OF all_optional_InputProps_sample]])
  have f2: "\<not> satisfies sample_env [] (Field_props sample_env None)"
  proof
    assume "satisfies sample_env [] (Field_props sample_env None)"
    then have "\<forall>P f. field_of (Field_props sample_env None) P = Some f \<longrightarrow> optional f"
      unfolding satisfies_iff by simp
    moreover have "field_of (Field_props sample_env None) ''label'' = Some (req TString)"
      by (simp add: Field_props_def field_of_FieldProps)
    ultimately have "optional (req TString)" by blast
    then show False by (simp add: req_def)
  qed
  from d1 d2 c1 c2 f1 f2 show ?thesis by (simp add: registry_def)
qed

section \<open>Donut and Spinner\<close>

text \<open>
  C3, as amended. \<open>Donut\<close> and \<open>Spinner\<close> build their props from the native SVG
  attributes less an explicit list of names: \<^verbatim>\<open>opacity\<close>, \<^verbatim>\<open>color\<close>, \<^verbatim>\<open>css\<close>,
  \<^verbatim>\<open>sx\<close>, \<^verbatim>\<open>max\<close> and \<^verbatim>\<open>min\<close> for \<open>Donut\<close>, and \<^verbatim>\<open>opacity\<close>, \<^verbatim>\<open>color\<close>,
  \<^verbatim>\<open>css\<close> and \<^verbatim>\<open>sx\<close> for \<open>Spinner\<close>; where \<^verbatim>\<open>svg\<close> declares no attribute \<^verbatim>\<open>css\<close> or
  \<^verbatim>\<open>sx\<close>, these are the shapes obtained by removing \<^verbatim>\<open>opacity\<close>, \<^verbatim>\<open>color\<close>, \<^verbatim>\<open>min\<close>
  and \<^verbatim>\<open>max\<close>, respectively \<^verbatim>\<open>opacity\<close> and \<^verbatim>\<open>color\<close>, only. \<open>Donut\<close> declares a
  required numeric \<^verbatim>\<open>value\<close> and optional numeric \<^verbatim>\<open>min\<close> and \<^verbatim>\<open>max\<close>. Unless the
  compiler reduces the intersection of the attributes of \<^verbatim>\<open>svg\<close> with the own props to
  \<^verbatim>\<open>never\<close>, \<open>Donut\<close> has besides an optional string \<^verbatim>\<open>title\<close> and an optional
  \<^verbatim>\<open>size\<close>, \<open>Spinner\<close> an optional \<^verbatim>\<open>size\<close>, at \<^verbatim>\<open>opacity\<close>, \<^verbatim>\<open>color\<close>, \<^verbatim>\<open>css\<close> and
  \<^verbatim>\<open>sx\<close> both shapes have the field of the own props, whatever the native attributes
  declare there, and at every other name they have the field of the native-wins merge.
  Props that satisfy \<^verbatim>\<open>DonutProps\<close> supply \<^verbatim>\<open>value\<close>, and supply no string as
  \<^verbatim>\<open>value\<close>, \<^verbatim>\<open>min\<close> or \<^verbatim>\<open>max\<close>: there the native meaning is not accepted. A native
  value of \<^verbatim>\<open>color\<close> is accepted by \<open>Spinner\<close> whenever the own props accept the
  values of the native attributes at the removed names. \<open>Donut\<close> and \<open>Spinner\<close> are not
  the only components to remove names: \<^verbatim>\<open>CloseProps\<close> has no \<^verbatim>\<open>children\<close>.
\<close>

theorem Donut_Spinner_exclusions:
  "field_of (DonutProps E) ''value'' = Some (req TNumber) \<and>
   field_of (DonutProps E) ''min'' = Some (opt TNumber) \<and>
   field_of (DonutProps E) ''max'' = Some (opt TNumber) \<and>
   (\<not> never_reduced (ComponentPropsWithRef E (TLit ''svg'')) (BoxOwnProps E) \<longrightarrow>
      field_of (DonutProps E) P =
        (if P = ''value'' then Some (req TNumber)
         else if P = ''min'' \<or> P = ''max'' then Some (opt TNumber)
         else if P = ''title'' then Some (opt TString)
         else if P = ''size'' then Some (opt (TUnion TString TNumber))
         else if P \<in> set [''opacity'', ''color'', ''css'', ''sx'']
         then field_of (BoxOwnProps E) P
         else field_of (Assign (ComponentPropsWithRef E (TLit ''svg'')) (BoxOwnProps E)) P) \<and>
      field_of (SpinnerProps E) P =
        (if P = ''size'' then Some (opt (TUnion TNumber TString))
         else if P \<in> set [''opacity'', ''color'', ''css'', ''sx'']
         then field_of (BoxOwnProps E) P
         else field_of (Assign (ComponentPropsWithRef E (TLit ''svg'')) (BoxOwnProps E)) P)) \<and>
   (''css'' \<notin> set (keyof (ComponentPropsWithRef E (TLit ''svg''))) \<and>
    ''sx'' \<notin> set (keyof (ComponentPropsWithRef E (TLit ''svg''))) \<longrightarrow>
      DonutProps E = DonutProps_spec E \<and> SpinnerProps E = SpinnerProps_spec E) \<and>
   (satisfies E ob (DonutProps E) \<longrightarrow>
      ''value'' \<in> fst ` set ob \<and>
      (\<forall>s. (''value'', VStr s) \<notin> set ob \<and> (''min'', VStr s) \<notin> set ob \<and>
           (''max'', VStr s) \<notin> set ob)) \<and>
   (spinner_admits_native E \<and> (''color'', v) \<in> set ob \<and>
    satisfies E ob (ComponentPropsWithRef E (TLit ''svg'')) \<and>
    \<not> never_reduced (ComponentPropsWithRef E (TLit ''svg'')) (BoxOwnProps E) \<longrightarrow>
      (\<exists>g. field_of (SpinnerProps E) ''color'' = Some g \<and> has_ty E v (fty g))) \<and>
   ''children'' \<notin> set (keyof (CloseProps E))"
proof -
  let ?N = "ComponentPropsWithRef E (TLit ''svg'')"
  have "''value'' \<in> fst ` set ob" if "satisfies E ob (DonutProps E)"
    using that DonutProps_value [of E] unfolding satisfies_iff by (fastforce simp: req_def)
  moreover have "(''value'', VStr s) \<notin> set ob" if "satisfies E ob (DonutProps E)" for s
    using satisfies_supplied [OF that, of "''value''" "VStr s" "req TNumber"]
    by (auto simp: DonutProps_value req_def)
  moreover have "(''min'', VStr s) \<notin> set ob" if "satisfies E ob (DonutProps E)" for s
    using satisfies_supplied [OF that, of "''min''" "VStr s" "opt TNumber"]
    by (auto simp: field_of_DonutProps_body opt_def)
  moreover have "(''max'', VStr s) \<notin> set ob" if "satisfies E ob (DonutProps E)" for s
    using satisfies_supplied [OF that, of "''max''" "VStr s" "opt TNumber"]
    by (auto simp: field_of_DonutProps_body opt_def)
  moreover have "\<exists>g. field_of (SpinnerProps E) ''color'' = Some g \<and> has_ty E v (fty g)"
    if adm: "spinner_admits_native E" and pv: "(''color'', v) \<in> set ob"
      and sat: "satisfies E ob ?N" and nr: "\<not> never_reduced ?N (BoxOwnProps E)"
  proof -
    from sat pv obtain f where f: "field_of ?N ''color'' = Some f" "has_ty E v (fty f)"
      unfolding satisfies_iff by blast
    with adm obtain g where "field_of (BoxOwnProps E) ''color'' = Some g" "has_ty E v (fty g)"
      unfolding spinner_admits_native_def admits_def
      by (fastforce split: option.splits)
    then show ?thesis by (simp add: field_of_SpinnerProps [OF nr])
  qed
  moreover have "''children'' \<notin> set (keyof (CloseProps E))"
    using field_of_CloseProps [of E "''children''"] by (simp add: field_of_None_iff)
  ultimately show ?thesis
    using field_of_DonutProps [of E P] field_of_SpinnerProps [of E P]
      spec_wording_same [of E] DonutProps_value [of E] field_of_DonutProps_body [of E]
    by blast
qed

theorem Donut_Spinner_exclusions_witness:
  "\<not> never_reduced (ComponentPropsWithRef sample_env (TLit ''svg'')) (BoxOwnProps sample_env) \<and>
   ''css'' \<notin> set (keyof (ComponentPropsWithRef sample_env (TLit ''svg''))) \<and>
   ''sx'' \<notin> set (keyof (ComponentPropsWithRef sample_env (TLit ''svg''))) \<and>
   DonutProps sample_env = DonutProps_spec sample_env \<and>
   field_of (DonutProps sample_env) ''color'' =
     Some (opt (TExt ''ResponsiveValue'' [TExt ''Property.Color'' []])) \<and>
   field_of (SpinnerProps sample_env) ''css'' = Some (opt (Interpolation TAny)) \<and>
   satisfies sample_env [(''value'', VNum 1), (''min'', VNum 0), (''color'', VStr ''primary'')]
     (DonutProps sample_env) \<and>
   \<not> satisfies sample_env [(''value'', VNum 1), (''min'', VStr ''0'')] (DonutProps sample_env) \<and>
   spinner_admits_native sample_env \<and>
   satisfies sample_env [(''color'', VStr ''red'')]
     (ComponentPropsWithRef sample_env (TLit ''svg'')) \<and>
   (\<exists>g. field_of (SpinnerProps sample_env) ''color'' = Some g \<and>
        has_ty sample_env (VStr ''red'') (fty g))"
proof -
  note nr = not_reduced_sample_host(1)
  have sv: "satisfies sample_env [(''color'', VStr ''red'')]
      (ComponentPropsWithRef sample_env (TLit ''svg''))"
    by (simp add: satisfies_def sample_defs keyof_def is_optional_def field_of_def opt_def)
  from Donut_Spinner_exclusions [of sample_env "''color''" "[(''color'', VStr ''red'')]"
      "VStr ''red''"]
  have "spinner_admits_native sample_env \<and>
      (''color'', VStr ''red'') \<in> set [(''color'', VStr ''red'')] \<and>
      satisfies sample_env [(''color'', VStr ''red'')]
        (ComponentPropsWithRef sample_env (TLit ''svg'')) \<and>
      \<not> never_reduced (ComponentPropsWithRef sample_env (TLit ''svg''))
        (BoxOwnProps sample_env) \<longrightarrow>
      (\<exists>g. field_of (SpinnerProps sample_env) ''color'' = Some g \<and>
           has_ty sample_env (VStr ''red'') (fty g))"
    by blast
  with spinner_admits_native_sample sv nr
  have sp: "\<exists>g. field_of (SpinnerProps sample_env) ''color'' = Some g \<and>
      has_ty sample_env (VStr ''red'') (fty g)"
    by simp
  note c = field_of_sample_own_color
  have k: "''css'' \<notin> set (keyof (ComponentPropsWithRef sample_env (TLit ''svg'')))"
    "''sx'' \<notin> set (keyof (ComponentPropsWithRef sample_env (TLit ''svg'')))"
    by (simp_all add: sample_defs keyof_def)
  have r: "optional f \<or> P = ''value''" if "field_of (DonutProps sample_env) P = Some f" for P f
    using that env_ok_own [OF env_ok_sample]
      all_optional_Assign [OF all_optional_sample_host(1) env_ok_own [OF env_ok_sample]]
    unfolding all_optional_iff field_of_DonutProps [OF nr]
    by (auto simp: opt_def split: if_splits)
  have s: "satisfies sample_env
      [(''value'', VNum 1), (''min'', VNum 0), (''color'', VStr ''primary'')]
      (DonutProps sample_env)"
    unfolding satisfies_iff
  proof (intro conjI allI impI)
    show "\<forall>(P, v) \<in> set [(''value'', VNum 1), (''min'', VNum 0), (''color'', VStr ''primary'')].
        \<exists>f. field_of (DonutProps sample_env) P = Some f \<and> has_ty sample_env v (fty f)"
      by (simp add: field_of_DonutProps [OF nr] c req_def opt_def inhabits_sample
          sample_inhabits_def)
  next
    fix P f
    assume "field_of (DonutProps sample_env) P = Some f"
    from r [OF this]
    show "optional f \<or>
        P \<in> fst ` set [(''value'', VNum 1), (''min'', VNum 0), (''color'', VStr ''primary'')]"
      by auto
  qed
  from Donut_Spinner_exclusions [of sample_env "''color''"
      "[(''value'', VNum 1), (''min'', VStr ''0'')]"]
    Donut_Spinner_exclusions [of sample_env "''css''" "[]"] nr k c s sp sv
    spinner_admits_native_sample
  show ?thesis by (auto simp: field_of_BoxOwnProps_body)
qed

text \<open>
  The claim as stated fails in two places. It says that the original meaning of a
  removed name is not accepted: the props \<^verbatim>\<open>{color: 'red', opacity: 1}\<close> typecheck
  against the attributes of \<^verbatim>\<open>svg\<close>, and against \<^verbatim>\<open>SpinnerProps\<close> too, the \<^verbatim>\<open>color\<close> and
  \<^verbatim>\<open>opacity\<close> of the own props accepting a colour string and a number. And it says that
  \<open>Donut\<close> and \<open>Spinner\<close> are the only components with an exclusion list:
  \<^verbatim>\<open>CloseProps\<close> removes \<^verbatim>\<open>children\<close> from \<^verbatim>\<open>IconButtonProps\<close>, and \<^verbatim>\<open>FieldProps\<close>
  removes \<^verbatim>\<open>as\<close> and the names of \<^verbatim>\<open>FieldOwnProps\<close> from the props of its type
  argument, so that the optional \<^verbatim>\<open>name\<close> of \<^verbatim>\<open>input\<close> becomes the required \<^verbatim>\<open>name\<close> of
  \<^verbatim>\<open>Field<'input'>\<close>.
\<close>

theorem Spinner_color_counterexample:
  "satisfies sample_env [(''color'', VStr ''red''), (''opacity'', VNum 1)]
     (ComponentPropsWithRef sample_env (TLit ''svg'')) \<and>
   satisfies sample_env [(''color'', VStr ''red''), (''opacity'', VNum 1)]
     (SpinnerProps sample_env) \<and>
   field_of (IconButtonProps sample_env) ''children'' =
     Some (opt (TExt ''React.ReactNode'' [])) \<and>
   field_of (CloseProps sample_env) ''children'' = None \<and>
   field_of (ComponentPropsWithRef sample_env (TLit ''input'')) ''name'' = Some (opt TString) \<and>
   field_of (FieldProps sample_env (TLit ''input'')) ''name'' = Some (req TString)"
proof -
  have n: "field_of (ComponentPropsWithRef sample_env (TLit ''input'')) ''name'' =
      Some (opt TString)"
    by (simp add: sample_defs field_of_def)
  have sat: "satisfies sample_env [(''color'', VStr ''red''), (''opacity'', VNum 1)]
      (ComponentPropsWithRef sample_env (TLit ''svg''))"
    by (simp add: satisfies_def sample_defs keyof_def is_optional_def field_of_def opt_def)
  from satisfies_Spinner [OF env_ok_sample sat] sat show ?thesis
    by (simp add: field_of_IconButtonProps_sample field_of_CloseProps n field_of_FieldProps)
qed

section \<open>The props of Field\<close>

text \<open>
  C4, as amended. For every element or component type \<open>T\<close>, the props of
  \<^verbatim>\<open>Field<T>\<close> are exactly: a required string \<^verbatim>\<open>label\<close>, a required string \<^verbatim>\<open>name\<close>,
  every field of \<^verbatim>\<open>MarginProps\<close> (which \<^verbatim>\<open>FieldOwnProps\<close> extends) with the type it has
  there, every prop of \<open>T\<close> except \<^verbatim>\<open>as\<close>, \<^verbatim>\<open>label\<close>, \<^verbatim>\<open>name\<close> and the names of
  \<^verbatim>\<open>MarginProps\<close>, with the type it has in \<open>T\<close>, and an optional \<^verbatim>\<open>as\<close> of type \<open>T\<close>
  (\<^verbatim>\<open>MarginProps\<close> declaring no \<^verbatim>\<open>as\<close>).
\<close>

theorem FieldProps_fields:
  "field_of (FieldProps E T) P =
     (if P = ''label'' \<or> P = ''name'' then Some (req TString)
      else if P = ''as'' then inter_field (field_of (MarginProps E) ''as'') (Some (opt T))
      else if P \<in> set (keyof (MarginProps E)) then field_of (MarginProps E) P
      else field_of (ComponentPropsWithRef E T) P) \<and>
   (''as'' \<notin> set (keyof (MarginProps E)) \<longrightarrow> field_of (FieldProps E T) ''as'' = Some (opt T))"
  using field_of_None_iff [of "MarginProps E" "''as''"]
  by (auto simp: field_of_FieldProps)

theorem FieldProps_fields_witness:
  "''as'' \<notin> set (keyof (MarginProps sample_env)) \<and>
   field_of (FieldProps sample_env (TLit ''input'')) ''as'' = Some (opt (TLit ''input'')) \<and>
   field_of (FieldProps sample_env (TLit ''input'')) ''label'' = Some (req TString) \<and>
   field_of (FieldProps sample_env (TLit ''input'')) ''mb'' = Some (opt sample_margin) \<and>
   field_of (FieldProps sample_env (TLit ''input'')) ''checked'' = Some (opt TBoolean)"
proof -
  have "field_of (ComponentPropsWithRef sample_env (TLit ''input'')) ''checked'' =
      Some (opt TBoolean)"
    by (simp add: sample_defs field_of_def)
  with FieldProps_fields [of sample_env "TLit ''input''" "''as''"]
    FieldProps_fields [of sample_env "TLit ''input''" "''label''"]
    FieldProps_fields [of sample_env "TLit ''input''" "''mb''"]
    FieldProps_fields [of sample_env "TLit ''input''" "''checked''"]
  show ?thesis
    by (simp add: keyof_sample_MarginProps field_of_sample_mb)
qed

text \<open>
  The claim as stated fails at \<^verbatim>\<open>Field<'input'>\<close> and the name \<^verbatim>\<open>mb\<close>: it is a prop of
  \<^verbatim>\<open>Field\<close>, and it is neither \<^verbatim>\<open>label\<close>, \<^verbatim>\<open>name\<close> or \<^verbatim>\<open>as\<close> nor an attribute of
  \<^verbatim>\<open>input\<close>. Props with a label, a name and \<^verbatim>\<open>mb={3}\<close> typecheck against
  \<^verbatim>\<open>FieldProps<'input'>\<close>, and not against the shape the claim describes.
\<close>

theorem FieldProps_margin_counterexample:
  "field_of (FieldProps sample_env (TLit ''input'')) ''mb'' = Some (opt sample_margin) \<and>
   field_of (FieldProps_spec sample_env (TLit ''input'')) ''mb'' = None \<and>
   field_of (ComponentPropsWithRef sample_env (TLit ''input'')) ''mb'' = None \<and>
   satisfies sample_env
     [(''label'', VStr ''Email''), (''name'', VStr ''email''), (''mb'', VNum 3)]
     (FieldProps sample_env (TLit ''input'')) \<and>
   \<not> satisfies sample_env
     [(''label'', VStr ''Email''), (''name'', VStr ''email''), (''mb'', VNum 3)]
     (FieldProps_spec sample_env (TLit ''input''))"
proof -
  let ?ob = "[(''label'', VStr ''Email''), (''name'', VStr ''email''), (''mb'', VNum 3)]"
  let ?S = "FieldProps sample_env (TLit ''input'')"
  have n: "field_of (ComponentPropsWithRef sample_env (TLit ''input'')) ''mb'' = None"
    by (simp add: sample_defs field_of_def)
  have sp: "field_of (FieldProps_spec sample_env (TLit ''input'')) ''mb'' = None"
    unfolding FieldProps_spec_def field_of_append field_of_Omit field_of_Cons field_of_Nil
    by (simp add: n)
  have mb: "field_of ?S ''mb'' = Some (opt sample_margin)"
    by (simp add: field_of_FieldProps keyof_sample_MarginProps field_of_sample_mb)
  have a: "field_of (MarginProps sample_env) ''as'' = None"
    by (simp add: field_of_None_iff keyof_sample_MarginProps)
  have r: "optional f \<or> P = ''label'' \<or> P = ''name''" if "field_of ?S P = Some f" for P f
    using that all_optional_sample_host(2) all_optional_sample_MarginProps
    unfolding all_optional_iff field_of_FieldProps
    by (auto simp: a opt_def split: if_splits)
  have yes: "satisfies sample_env ?ob ?S"
    unfolding satisfies_iff
  proof (intro conjI allI impI)
    show "\<forall>(P, v) \<in> set ?ob. \<exists>f. field_of ?S P = Some f \<and> has_ty sample_env v (fty f)"
      by (simp add: mb) (simp add: field_of_FieldProps req_def opt_def sample_margin_def
          inhabits_sample sample_inhabits_def)
  next
    fix P f
    assume "field_of ?S P = Some f"
    from r [OF this] show "optional f \<or> P \<in> fst ` set ?ob" by auto
  qed
  have no: "\<not> satisfies sample_env ?ob (FieldProps_spec sample_env (TLit ''input''))"
  proof
    assume "satisfies sample_env ?ob (FieldProps_spec sample_env (TLit ''input''))"
    from satisfies_keys [OF this, of "''mb''" "VNum 3"] sp show False
      by (simp add: field_of_None_iff)
  qed
  from mb sp n yes no show ?thesis by simp
qed

section \<open>The default and a custom type of Field\<close>

text \<open>
  C5, as amended. With no type argument (and no \<^verbatim>\<open>as\<close> prop to infer one from),
  \<^verbatim>\<open>Field\<close> takes its type parameter to be \<^verbatim>\<open>React.ComponentType<InputProps>\<close>; with a
  component given as \<^verbatim>\<open>as\<close>, the type of that component. For a type parameter \<open>T\<close>,
  \<^verbatim>\<open>Field\<close> has a required string \<^verbatim>\<open>label\<close> and \<^verbatim>\<open>name\<close>, the optional \<^verbatim>\<open>as\<close> of type
  \<open>T\<close> (\<^verbatim>\<open>MarginProps\<close> declaring no \<^verbatim>\<open>as\<close>), the fields of \<^verbatim>\<open>MarginProps\<close> with the
  types they have there, and at every other name the field that
  \<^verbatim>\<open>React.ComponentPropsWithRef<T>\<close> has. When \<^verbatim>\<open>React.ComponentPropsWithRef<T>\<close>
  declares the names of \<^verbatim>\<open>MarginProps\<close> as \<^verbatim>\<open>MarginProps\<close> does, the props of \<^verbatim>\<open>Field\<close>
  are, \<^verbatim>\<open>as\<close> apart, exactly \<^verbatim>\<open>label\<close> and \<^verbatim>\<open>name\<close> and the fields of
  \<^verbatim>\<open>React.ComponentPropsWithRef<T>\<close> other than \<^verbatim>\<open>as\<close>, \<^verbatim>\<open>label\<close> and \<^verbatim>\<open>name\<close>.
\<close>

theorem Field_props_fields:
  "Field_props E None = FieldProps E (React_ComponentType (InputProps E)) \<and>
   Field_props E (Some T) = FieldProps E T \<and>
   field_of (Field_props E (Some T)) P =
     (if P = ''label'' \<or> P = ''name'' then Some (req TString)
      else if P = ''as'' then inter_field (field_of (MarginProps E) ''as'') (Some (opt T))
      else if P \<in> set (keyof (MarginProps E)) then field_of (MarginProps E) P
      else field_of (ComponentPropsWithRef E T) P) \<and>
   (''as'' \<notin> set (keyof (MarginProps E)) \<longrightarrow>
      field_of (Field_props E (Some T)) ''as'' = Some (opt T)) \<and>
   (same_fields (ComponentPropsWithRef E T) (MarginProps E) (keyof (MarginProps E)) \<and>
    P \<noteq> ''as'' \<longrightarrow>
      field_of (Field_props E (Some T)) P =
        (if P = ''label'' \<or> P = ''name'' then Some (req TString)
         else field_of (ComponentPropsWithRef E T) P))"
  using field_of_None_iff [of "MarginProps E" "''as''"]
  by (auto simp: Field_props_def field_of_FieldProps same_fields_def list_all_iff)

theorem Field_props_fields_witness:
  "same_fields (ComponentPropsWithRef sample_env (React_ComponentType (InputProps sample_env)))
     (MarginProps sample_env) (keyof (MarginProps sample_env)) \<and>
   ''as'' \<notin> set (keyof (MarginProps sample_env)) \<and>
   field_of (Field_props sample_env None) ''as'' =
     Some (opt (React_ComponentType (InputProps sample_env))) \<and>
   field_of (Field_props sample_env None) ''name'' = Some (req TString) \<and>
   field_of (Field_props sample_env None) ''checked'' = Some (opt TBoolean)"
proof -
  let ?T = "React_ComponentType (InputProps sample_env)"
  note F = Field_props_fields [of sample_env ?T]
  have d: "Field_props sample_env None = Field_props sample_env (Some ?T)"
    using F by simp
  have a: "''as'' \<notin> set (keyof (MarginProps sample_env))"
    by (simp add: keyof_sample_MarginProps)
  have w: "field_of (Field_props sample_env None) P =
      (if P = ''label'' \<or> P = ''name'' then Some (req TString)
       else field_of (ComponentPropsWithRef sample_env ?T) P)" if "P \<noteq> ''as''" for P
    unfolding d using F [of P] that same_fields_sample_default by blast
  have c: "field_of (ComponentPropsWithRef sample_env ?T) ''checked'' = Some (opt TBoolean)"
    by (simp add: CPWR_sample_component field_of_component_props field_of_InputProps_sample)
  from F [of "''as''"] a have "field_of (Field_props sample_env None) ''as'' = Some (opt ?T)"
    unfolding d by blast
  with w [of "''name''"] w [of "''checked''"] c a same_fields_sample_default
  show ?thesis by simp
qed

text \<open>
  The claim as stated fails in two places. With the default type parameter, the
  \<^verbatim>\<open>ref\<close> of \<^verbatim>\<open>Field\<close> is not the \<^verbatim>\<open>ref\<close> of \<^verbatim>\<open>InputProps\<close>:
  \<^verbatim>\<open>React.ComponentPropsWithRef\<close> of a component type also admits a reference to a class
  component there. And a component with a boolean prop named \<^verbatim>\<open>margin\<close> accepts
  \<^verbatim>\<open>margin={true}\<close>, while \<^verbatim>\<open>Field\<close> with that component as its \<^verbatim>\<open>as\<close> does not, since
  its \<^verbatim>\<open>margin\<close> is the one of \<^verbatim>\<open>MarginProps\<close>.
\<close>

theorem Field_props_counterexample:
  "field_of (InputProps sample_env) ''ref'' = Some (opt (TExt ''React.Ref'' [TLit ''input''])) \<and>
   field_of (Field_props sample_env None) ''ref'' =
     Some (Fld (TUnion
                  (TUnion (TExt ''React.Ref''
                             [TExt ''React.Component'' [TObject (InputProps sample_env)]])
                     TUndefined)
                  (TUnion (TExt ''React.Ref'' [TLit ''input'']) TUndefined)) True) \<and>
   satisfies sample_env [(''margin'', VBool True)]
     (ComponentPropsWithRef sample_env (React_ComponentType Custom_props)) \<and>
   \<not> satisfies sample_env
     [(''label'', VStr ''Amount''), (''name'', VStr ''amount''), (''margin'', VBool True)]
     (Field_props sample_env (Some (React_ComponentType Custom_props)))"
proof -
  let ?ob = "[(''label'', VStr ''Amount''), (''name'', VStr ''amount''), (''margin'', VBool True)]"
  let ?S = "Field_props sample_env (Some (React_ComponentType Custom_props))"
  have r: "field_of (Field_props sample_env None) ''ref'' =
      Some (Fld (TUnion
                  (TUnion (TExt ''React.Ref''
                             [TExt ''React.Component'' [TObject (InputProps sample_env)]])
                     TUndefined)
                  (TUnion (TExt ''React.Ref'' [TLit ''input'']) TUndefined)) True)"
    by (simp add: Field_props_def field_of_FieldProps keyof_sample_MarginProps
        CPWR_sample_component field_of_component_props field_of_InputProps_sample opt_def)
  have 1: "satisfies sample_env [(''margin'', VBool True)]
      (ComponentPropsWithRef sample_env (React_ComponentType Custom_props))"
    unfolding CPWR_sample_component
    by (simp add: satisfies_def component_props_def Custom_props_def keyof_def is_optional_def
        field_of_def opt_def)
  have m: "field_of ?S ''margin'' = Some (opt sample_margin)"
    by (simp add: Field_props_def field_of_FieldProps keyof_sample_MarginProps)
      (simp add: sample_defs field_of_def)
  have 2: "\<not> satisfies sample_env ?ob ?S"
  proof
    assume "satisfies sample_env ?ob ?S"
    from satisfies_supplied [OF this _ m, of "VBool True"]
    show False
      by (simp add: opt_def sample_margin_def inhabits_sample sample_inhabits_def)
  qed
  from r 1 2 show ?thesis by (simp add: field_of_InputProps_sample)
qed

section \<open>The table of default variants\<close>

text \<open>
  C6. The table of default variants is a function on the components it lists: no
  component is listed twice, each listed component has exactly one default bucket,
  \<open>Container\<close> has \<^verbatim>\<open>theme.layout.container\<close> and \<open>Alert\<close> has
  \<^verbatim>\<open>theme.alerts.primary\<close>.
\<close>

theorem default_variant_function:
  "distinct (map fst default_variant) \<and>
   default_bucket Container = Some ''theme.layout.container'' \<and>
   default_bucket Alert = Some ''theme.alerts.primary'' \<and>
   (\<forall>c \<in> set (map fst default_variant).
      \<exists>b. default_bucket c = Some b \<and> (\<forall>b'. (c, b') \<in> set default_variant \<longrightarrow> b' = b))"
proof -
  have d: "distinct (map fst default_variant)"
    by (simp add: default_variant_def)
  have "\<exists>b. default_bucket c = Some b \<and> (\<forall>b'. (c, b') \<in> set default_variant \<longrightarrow> b' = b)"
    if "c \<in> set (map fst default_variant)" for c
  proof -
    from that obtain b where b: "(c, b) \<in> set default_variant" by auto
    with d have "default_bucket c = Some b" by (simp add: default_bucket_def)
    moreover have "b' = b" if "(c, b') \<in> set default_variant" for b'
      using d that \<open>default_bucket c = Some b\<close> by (simp add: default_bucket_def)
    ultimately show ?thesis by blast
  qed
  moreover have "default_bucket Container = Some ''theme.layout.container''"
    "default_bucket Alert = Some ''theme.alerts.primary''"
    by (simp_all add: default_bucket_def default_variant_def)
  ultimately show ?thesis using d by blast
qed

theorem default_variant_function_witness:
  "Container \<in> set (map fst default_variant) \<and>
   (\<exists>b. default_bucket Container = Some b \<and> (Container, b) \<in> set default_variant)"
proof -
  have c: "Container \<in> set (map fst default_variant)"
    by (simp add: default_variant_def)
  with default_variant_function have "\<exists>b. default_bucket Container = Some b" by blast
  with c show ?thesis by (auto simp: default_bucket_def dest: map_of_SomeD)
qed

section \<open>Optional own props\<close>

text \<open>
  C7, as amended. Every field of \<^verbatim>\<open>BoxOwnProps\<close> (and of its alias
  \<^verbatim>\<open>FlexOwnProps\<close>) is optional when the fields of \<^verbatim>\<open>SpaceProps\<close> and \<^verbatim>\<open>ColorProps\<close>
  are, so that the empty props satisfy it; \<^verbatim>\<open>FieldOwnProps\<close> requires a string
  \<^verbatim>\<open>label\<close> and a string \<^verbatim>\<open>name\<close>.
\<close>

theorem own_props_optional:
  assumes "all_optional (SpaceProps E)" and "all_optional (ColorProps E)"
  shows "all_optional (BoxOwnProps E) \<and> satisfies E [] (BoxOwnProps E) \<and>
    FlexOwnProps E = BoxOwnProps E \<and>
    field_of (FieldOwnProps E) ''label'' = Some (req TString) \<and>
    field_of (FieldOwnProps E) ''name'' = Some (req TString)"
  using all_optional_BoxOwnProps [OF assms]
  by (simp add: satisfies_empty FlexOwnProps_def field_of_FieldOwnProps)

theorem own_props_optional_witness:
  "all_optional (SpaceProps sample_env) \<and> all_optional (ColorProps sample_env) \<and>
   all_optional (BoxOwnProps sample_env) \<and> satisfies sample_env [] (BoxOwnProps sample_env)"
proof -
  have s: "all_optional (SpaceProps sample_env)" and c: "all_optional (ColorProps sample_env)"
    using own_optional_sample by (simp_all add: own_optional_def)
  from own_props_optional [OF s c] s c show ?thesis by simp
qed

text \<open>
  The claim as stated fails at \<^verbatim>\<open>FieldOwnProps\<close>: the empty props do not satisfy it.
\<close>

theorem FieldOwnProps_required_counterexample:
  "\<not> satisfies sample_env [] (FieldOwnProps sample_env)"
proof
  assume "satisfies sample_env [] (FieldOwnProps sample_env)"
  then have "\<forall>P f. field_of (FieldOwnProps sample_env) P = Some f \<longrightarrow> optional f"
    unfolding satisfies_iff by simp
  moreover have "field_of (FieldOwnProps sample_env) ''label'' = Some (req TString)"
    by (simp add: field_of_FieldOwnProps)
  ultimately have "optional (req TString)" by blast
  then show False by (simp add: req_def)
qed

section \<open>The fallback branch of Assign\<close>

text \<open>
  C8, as amended. Every field name of \<^verbatim>\<open>Assign<T, U>\<close> is a field name of \<open>T\<close> or of
  \<open>U\<close>, so that no name selects the \<^verbatim>\<open>never\<close> branch; the type of a merged field is
  the type the name has in \<open>T\<close>, or in \<open>U\<close> for a name that \<open>T\<close> lacks, and so it is
  \<^verbatim>\<open>never\<close> only when that type is.
\<close>

theorem Assign_fallback_unreachable:
  assumes "field_of (Assign T U) P = Some f"
  shows "(P \<in> set (keyof T) \<or> P \<in> set (keyof U)) \<and>
    Assign_branch T U P \<noteq> Fallback \<and>
    fty f = (if P \<in> set (keyof T) then index T P else index U P)"
proof (cases "never_reduced T U")
  case True
  with assms show ?thesis by (simp add: Assign_reduced field_of_Nil)
next
  case False
  with assms field_of_None_iff [of T P] field_of_None_iff [of U P] show ?thesis
    by (auto simp: field_of_Assign Assign_branch_def index_def split: option.splits)
qed

theorem Assign_fallback_unreachable_witness:
  "field_of (Assign [(''id'', opt TString)] [(''variant'', opt TString)]) ''variant'' =
     Some (opt TString) \<and>
   Assign_branch [(''id'', opt TString)] [(''variant'', opt TString)] ''variant'' = From_U"
proof -
  have "\<not> never_reduced [(''id'', opt TString)] [(''variant'', opt TString)]"
    by (simp add: never_reduced_iff field_of_Cons field_of_Nil)
  then have f: "field_of (Assign [(''id'', opt TString)] [(''variant'', opt TString)]) ''variant'' =
      Some (opt TString)"
    by (simp add: field_of_Assign field_of_Cons field_of_Nil opt_def)
  from Assign_fallback_unreachable [OF f] f show ?thesis
    by (simp add: Assign_branch_def keyof_def)
qed

text \<open>
  The claim as stated fails where \<open>T\<close> itself has a field of type \<^verbatim>\<open>never\<close>: the
  merged shape has it too.
\<close>

theorem Assign_never_counterexample:
  "field_of (Assign [(''a'', req TNever)] []) ''a'' = Some (req TNever)"
  by (simp add: field_of_Assign [OF not_reduced_Nil] field_of_Cons field_of_Nil req_def)

section \<open>Aliases\<close>

text \<open>
  C9. \<^verbatim>\<open>FlexProps\<close>, \<^verbatim>\<open>TextProps\<close>, \<^verbatim>\<open>CardProps\<close>, \<^verbatim>\<open>BadgeProps\<close>, \<^verbatim>\<open>AlertProps\<close>,
  \<^verbatim>\<open>DividerProps\<close>, \<^verbatim>\<open>ContainerProps\<close> and \<^verbatim>\<open>MessageProps\<close> are \<^verbatim>\<open>BoxProps\<close>,
  \<^verbatim>\<open>NavLinkProps\<close> is \<^verbatim>\<open>LinkProps\<close> and \<^verbatim>\<open>MenuButtonProps\<close> is \<^verbatim>\<open>IconButtonProps\<close>;
  each component declared with an alias has the props shape of its base component.
\<close>

theorem alias_props_equal:
  "FlexProps E = BoxProps E \<and> TextProps E = BoxProps E \<and> CardProps E = BoxProps E \<and>
   BadgeProps E = BoxProps E \<and> AlertProps E = BoxProps E \<and> DividerProps E = BoxProps E \<and>
   ContainerProps E = BoxProps E \<and> MessageProps E = BoxProps E \<and>
   NavLinkProps E = LinkProps E \<and> MenuButtonProps E = IconButtonProps E \<and>
   props_of E Box = Some (BoxProps E) \<and>
   props_of E Link = Some (LinkProps E) \<and>
   props_of E IconButton = Some (IconButtonProps E) \<and>
   list_all (\<lambda>c. props_of E c = props_of E Box)
     [Flex, Text, Card, Badge, Alert, Divider, Container, Message] \<and>
   props_of E NavLink = props_of E Link \<and>
   props_of E MenuButton = props_of E IconButton"
  by (simp add: FlexProps_def TextProps_def CardProps_def BadgeProps_def AlertProps_def
      DividerProps_def ContainerProps_def MessageProps_def NavLinkProps_def MenuButtonProps_def
      props_of_def registry_def)

theorem alias_props_equal_witness:
  "props_of sample_env Alert = Some (BoxProps sample_env) \<and>
   satisfies sample_env [(''id'', VStr ''note'')] (AlertProps sample_env) =
     satisfies sample_env [(''id'', VStr ''note'')] (BoxProps sample_env)"
  using alias_props_equal [of sample_env] by simp

section \<open>Close\<close>

text \<open>
  C10. \<^verbatim>\<open>CloseProps\<close> is \<^verbatim>\<open>IconButtonProps\<close> without \<^verbatim>\<open>children\<close>: every other
  field, the optional \<^verbatim>\<open>size\<close> among them, is the field of \<^verbatim>\<open>IconButtonProps\<close>
  unchanged, and \<^verbatim>\<open>children\<close> is not a field of \<^verbatim>\<open>CloseProps\<close>.
\<close>

theorem CloseProps_fields:
  "field_of (CloseProps E) P =
     (if P = ''children'' then None else field_of (IconButtonProps E) P) \<and>
   field_of (CloseProps E) ''size'' = Some (opt (TUnion TNumber TString)) \<and>
   field_of (IconButtonProps E) ''size'' = Some (opt (TUnion TNumber TString)) \<and>
   ''children'' \<notin> set (keyof (CloseProps E))"
proof -
  have f: "field_of (CloseProps E) Q =
      (if Q = ''children'' then None else field_of (IconButtonProps E) Q)" for Q
    by (simp add: CloseProps_def field_of_interface_empty field_of_Omit)
  from f [of "''children''"] have "''children'' \<notin> set (keyof (CloseProps E))"
    by (simp add: field_of_None_iff)
  with f [of P] f [of "''size''"] show ?thesis
    by (simp add: field_of_IconButtonProps_size)
qed

theorem CloseProps_fields_witness:
  "field_of (IconButtonProps sample_env) ''children'' =
     Some (opt (TExt ''React.ReactNode'' [])) \<and>
   field_of (CloseProps sample_env) ''children'' = None \<and>
   field_of (CloseProps sample_env) ''disabled'' = Some (opt TBoolean)"
  using CloseProps_fields [of sample_env "''children''"]
    CloseProps_fields [of sample_env "''disabled''"] field_of_IconButtonProps_sample
  by simp

end
